theory Spec2Isabelle
  imports Main "HOL-Library.Sublist"
begin

section \<open>Values, exceptions and the effects of the program\<close>

text \<open>
  The program is \<^verbatim>\<open>create_bot_dir.py\<close>. Events reach the handler with their
  raw JSON source (a Python dict); the handler reads it by subscripting, so the model
  keeps JSON documents as trees and writes out what Python's subscript and \<^verbatim>\<open>in\<close>
  do on every shape of value.
\<close>

datatype json =
    JNull
  | JBool bool
  | JNum int
  | JStr string
  | JList "json list"
  | JObj "(string \<times> json) list"

text \<open>
  The exceptions that can travel through the program. \<open>is_Exception\<close> is Python's
  class hierarchy: \<^verbatim>\<open>KeyboardInterrupt\<close>, \<^verbatim>\<open>SystemExit\<close>, \<^verbatim>\<open>GeneratorExit\<close> and
  asyncio's \<^verbatim>\<open>CancelledError\<close> derive from \<^verbatim>\<open>BaseException\<close> only.
\<close>

datatype exn =
    KeyError
  | TypeError
  | AssertionError
  | LocalProtocolError string
  | JSONDecodeError
  | OperationalError
  | OtherException string
  | KeyboardInterrupt
  | SystemExit int
  | GeneratorExit
  | CancelledError


definition is_BaseException :: "exn \<Rightarrow> bool" where
  "is_BaseException e = True"

fun is_LocalProtocolError :: "exn \<Rightarrow> bool" where
  "is_LocalProtocolError (LocalProtocolError r) = True"
| "is_LocalProtocolError e = False"

text \<open>\<^verbatim>\<open>d[k]\<close> with a string key: a dict looks the key up, every other value raises.\<close>

fun subscript :: "json \<Rightarrow> string \<Rightarrow> exn + json" where
  "subscript (JObj kvs) k = (case map_of kvs k of None \<Rightarrow> Inl KeyError | Some v \<Rightarrow> Inr v)"
| "subscript v k = Inl TypeError"

text \<open>
  \<^verbatim>\<open>s in v\<close> for a string \<open>s\<close>: membership in a list, substring of a string, key of a
  dict; a number, a boolean and \<^verbatim>\<open>None\<close> are not iterable.
\<close>

fun str_in :: "string \<Rightarrow> json \<Rightarrow> exn + bool" where
  "str_in s (JList xs) = Inr (JStr s \<in> set xs)"
| "str_in s (JStr t) = Inr (sublist s t)"
| "str_in s (JObj kvs) = Inr (s \<in> fst ` set kvs)"
| "str_in s v = Inl TypeError"

text \<open>\<^verbatim>\<open>table[k]\<close> on the library's transaction table, whose keys are strings.\<close>

fun hashable :: "json \<Rightarrow> bool" where
  "hashable (JList xs) = False"
| "hashable (JObj kvs) = False"
| "hashable v = True"

record ToDeviceMessage =
  msg_type :: string
  recipient :: string
  recipient_device :: json
  content :: json

datatype resp = ToDeviceResponse | ToDeviceError string

text \<open>
  A verification transaction of the library (\<^verbatim>\<open>Sas\<close>), by the attributes the handler
  reads from it.
\<close>

record sas =
  sas_transaction_id :: string
  other_olm_device_id :: string
  we_started_it :: bool
  sas_accepted :: bool
  canceled :: bool
  timed_out :: bool
  verified :: bool

text \<open>
  The class of an event with the attributes the handler reads: the transaction id, and
  the offered formats of a start or the reason of a cancellation. Requests and
  acknowledgements arrive as \<^verbatim>\<open>UnknownToDeviceEvent\<close>, which here stands for every
  class the handler has no \<^verbatim>\<open>isinstance\<close> test for.
\<close>

datatype event_class =
    KeyVerificationStart string "string list"
  | KeyVerificationCancel string string
  | KeyVerificationKey string
  | KeyVerificationMac string
  | UnknownToDeviceEvent

record event =
  source :: json
  sender :: string
  cls :: event_class

text \<open>What the handler prints or logs, by message and the values formatted into it.\<close>

datatype log =
    GotVerificationRequest
  | NoSasSupport json
  | ToDeviceFailed string
  | NoEmojiSupport "string list"
  | AcceptFailed string
  | CancelledBy string string
  | Emoji "(string \<times> string) list"
  | Match
  | ConfirmFailed string
  | DoneFailed string
  | NoMatch
  | CancelFailed string
  | CancelledByUser
  | ProtocolError string string
  | SasFlags sas
  | VerificationSuccessful
  | UnexpectedEvent
  | Traceback exn
  | ReceivedKeyboardInterrupt

text \<open>
  Everything the handler does to the world, in the order it does it: what it prints,
  the calls into the client library, and the prompt.
\<close>

datatype action =
    Print log
  | LogError log
  | Call_to_device ToDeviceMessage "json option"
  | Call_accept_key_verification string
  | Call_confirm_short_auth_string string
  | Call_cancel_key_verification string bool
  | Call_share_key sas
  | Call_get_mac sas
  | Call_get_emoji sas
  | Call_input

text \<open>
  The client library and the operator are outside the program: they are a parameter,
  a state of any type \<open>'s\<close> and one function per call the handler makes. Each call
  may return or raise, and may change the state.
\<close>

record 's client =
  device_id :: "'s \<Rightarrow> string option"
  user_id :: "'s \<Rightarrow> string option"
  key_verifications :: "'s \<Rightarrow> string \<Rightarrow> sas option"
  to_device :: "ToDeviceMessage \<Rightarrow> json option \<Rightarrow> 's \<Rightarrow> (exn + resp) \<times> 's"
  accept_key_verification :: "string \<Rightarrow> 's \<Rightarrow> (exn + resp) \<times> 's"
  confirm_short_auth_string :: "string \<Rightarrow> 's \<Rightarrow> (exn + resp) \<times> 's"
  cancel_key_verification :: "string \<Rightarrow> bool \<Rightarrow> 's \<Rightarrow> (exn + resp) \<times> 's"
  share_key :: "sas \<Rightarrow> 's \<Rightarrow> (exn + ToDeviceMessage) \<times> 's"
  get_mac :: "sas \<Rightarrow> 's \<Rightarrow> (exn + ToDeviceMessage) \<times> 's"
  get_emoji :: "sas \<Rightarrow> 's \<Rightarrow> (exn + (string \<times> string) list) \<times> 's"
  input :: "'s \<Rightarrow> (exn + string) \<times> 's"

section \<open>Statements that may raise\<close>

text \<open>
  A statement runs on the library's state and the trace so far, and either returns a
  value or raises.
\<close>

type_synonym ('s, 't, 'a) stmt = "'s \<times> 't list \<Rightarrow> (exn + 'a) \<times> 's \<times> 't list"

definition ret :: "'a \<Rightarrow> ('s, 't, 'a) stmt" where
  "ret x = (\<lambda>w. (Inr x, w))"

definition raise :: "exn \<Rightarrow> ('s, 't, 'a) stmt" where
  "raise e = (\<lambda>w. (Inl e, w))"

definition seq :: "('s, 't, 'a) stmt \<Rightarrow> ('a \<Rightarrow> ('s, 't, 'b) stmt) \<Rightarrow> ('s, 't, 'b) stmt" where
  "seq m f = (\<lambda>w. case m w of (Inl e, w') \<Rightarrow> (Inl e, w') | (Inr x, w') \<Rightarrow> f x w')"

definition emit :: "'t \<Rightarrow> ('s, 't, unit) stmt" where
  "emit a = (\<lambda>(s, tr). (Inr (), (s, tr @ [a])))"

definition lift :: "exn + 'a \<Rightarrow> ('s, 't, 'a) stmt" where
  "lift r = (case r of Inl e \<Rightarrow> raise e | Inr x \<Rightarrow> ret x)"

definition reads :: "('s \<Rightarrow> 'a) \<Rightarrow> ('s, 't, 'a) stmt" where
  "reads f = (\<lambda>(s, tr). (Inr (f s), (s, tr)))"

text \<open>A call is recorded before it runs, so a call that raises is in the trace.\<close>

definition call :: "'t \<Rightarrow> ('s \<Rightarrow> (exn + 'a) \<times> 's) \<Rightarrow> ('s, 't, 'a) stmt" where
  "call a f = (\<lambda>(s, tr). case f s of (r, s') \<Rightarrow> (r, (s', tr @ [a])))"

text \<open>\<^verbatim>\<open>try: m except C: h\<close>, where \<open>catches\<close> says which exceptions are instances of C.\<close>

definition try_except ::
  "('s, 't, 'a) stmt \<Rightarrow> (exn \<Rightarrow> bool) \<Rightarrow> (exn \<Rightarrow> ('s, 't, 'a) stmt) \<Rightarrow> ('s, 't, 'a) stmt" where
  "try_except m catches h =
     (\<lambda>w. case m w of
        (Inl e, w') \<Rightarrow> if catches e then h e w' else (Inl e, w')
      | (Inr x, w') \<Rightarrow> (Inr x, w'))"

definition when_error :: "resp \<Rightarrow> (string \<Rightarrow> 't) \<Rightarrow> ('s, 't, unit) stmt" where
  "when_error r a = (case r of ToDeviceError d \<Rightarrow> emit (a d) | ToDeviceResponse \<Rightarrow> ret ())"

definition lookup_sas :: "'s client \<Rightarrow> json \<Rightarrow> ('s, action, sas) stmt" where
  "lookup_sas client k =
     (if \<not> hashable k then raise TypeError
      else case k of
        JStr t \<Rightarrow> seq (reads (\<lambda>s. key_verifications client s t))
                    (\<lambda>r. case r of None \<Rightarrow> raise KeyError | Some x \<Rightarrow> ret x)
      | _ \<Rightarrow> raise KeyError)"

section \<open>The handler of to-device events\<close>

definition request_type :: string where
  "request_type = ''m.key.verification.request''"

definition done_type :: string where
  "done_type = ''m.key.verification.done''"

text \<open>\<^verbatim>\<open>assert x is not None\<close>.\<close>

definition assert_not_None :: "'a option \<Rightarrow> ('s, 't, 'a) stmt" where
  "assert_not_None x = (case x of None \<Rightarrow> raise AssertionError | Some v \<Rightarrow> ret v)"

text \<open>Lines 136 to 145: the reply to a verification request.\<close>

definition ready_event :: "event \<Rightarrow> json \<Rightarrow> string \<Rightarrow> json \<Rightarrow> ToDeviceMessage" where
  "ready_event ev from_dev dev txid =
     \<lparr>msg_type = ''m.key.verification.ready'',
      recipient = sender ev,
      recipient_device = from_dev,
      content = JObj [(''from_device'', JStr dev),
                      (''methods'', JList [JStr ''m.sas.v1'']),
                      (''transaction_id'', txid)]\<rparr>"

text \<open>Lines 118 to 148: a verification request.\<close>

definition on_request :: "'s client \<Rightarrow> event \<Rightarrow> ('s, action, unit) stmt" where
  "on_request client ev =
     seq (emit (Print GotVerificationRequest)) (\<lambda>_.
     seq (lift (subscript (source ev) ''content'')) (\<lambda>c.
     seq (lift (subscript c ''methods'')) (\<lambda>methods.
     seq (lift (str_in ''m.sas.v1'' methods)) (\<lambda>present.
     if \<not> present then emit (Print (NoSasSupport methods))
     else
       seq (reads (device_id client)) (\<lambda>dev.
       seq (assert_not_None dev) (\<lambda>d.
       seq (reads (user_id client)) (\<lambda>usr.
       seq (assert_not_None usr) (\<lambda>u.
       seq (lift (subscript c ''transaction_id'')) (\<lambda>txid.
       seq (lift (subscript c ''from_device'')) (\<lambda>from_dev.
       seq (call (Call_to_device (ready_event ev from_dev d txid) (Some txid))
                 (to_device client (ready_event ev from_dev d txid) (Some txid))) (\<lambda>r.
       when_error r (\<lambda>x. Print (ToDeviceFailed x)))))))))))))"

text \<open>Lines 179 to 194: the other device starts the verification.\<close>

definition on_start :: "'s client \<Rightarrow> event \<Rightarrow> string \<Rightarrow> string list \<Rightarrow> ('s, action, unit) stmt" where
  "on_start client ev transaction_id short_authentication_string =
     (if ''emoji'' \<notin> set short_authentication_string
      then emit (Print (NoEmojiSupport short_authentication_string))
      else
        seq (call (Call_accept_key_verification transaction_id)
                  (accept_key_verification client transaction_id)) (\<lambda>r.
        seq (when_error r (\<lambda>d. Print (AcceptFailed d))) (\<lambda>_.
        seq (lookup_sas client (JStr transaction_id)) (\<lambda>sas.
        seq (call (Call_share_key sas) (share_key client sas)) (\<lambda>todevice_msg.
        seq (call (Call_to_device todevice_msg None) (to_device client todevice_msg None)) (\<lambda>r.
        when_error r (\<lambda>d. Print (ToDeviceFailed d))))))))"

text \<open>Lines 214 to 217: the other device cancelled.\<close>

definition on_cancel :: "'s client \<Rightarrow> event \<Rightarrow> string \<Rightarrow> ('s, action, unit) stmt" where
  "on_cancel client ev reason = emit (Print (CancelledBy (sender ev) reason))"

text \<open>\<^verbatim>\<open>yn.lower()\<close> on the one-letter answers.\<close>

definition lower_is :: "string \<Rightarrow> char \<Rightarrow> char \<Rightarrow> bool" where
  "lower_is yn small capital = (yn = [small] \<or> yn = [capital])"

text \<open>Lines 249 to 256: the message that ends a successful verification.\<close>

definition done_message :: "event \<Rightarrow> sas \<Rightarrow> ToDeviceMessage" where
  "done_message ev sas =
     \<lparr>msg_type = done_type,
      recipient = sender ev,
      recipient_device = JStr (other_olm_device_id sas),
      content = JObj [(''transaction_id'', JStr (sas_transaction_id sas))]\<rparr>"

text \<open>Lines 232 to 277: the keys are exchanged, the operator compares the emojis.\<close>

definition on_key :: "'s client \<Rightarrow> event \<Rightarrow> string \<Rightarrow> ('s, action, unit) stmt" where
  "on_key client ev transaction_id =
     seq (lookup_sas client (JStr transaction_id)) (\<lambda>sas.
     seq (call (Call_get_emoji sas) (get_emoji client sas)) (\<lambda>em.
     seq (emit (Print (Emoji em))) (\<lambda>_.
     seq (call Call_input (input client)) (\<lambda>yn.
     if lower_is yn CHR ''y'' CHR ''Y'' then
       seq (emit (Print Match)) (\<lambda>_.
       seq (call (Call_confirm_short_auth_string transaction_id)
                 (confirm_short_auth_string client transaction_id)) (\<lambda>r.
       seq (when_error r (\<lambda>d. Print (ConfirmFailed d))) (\<lambda>_.
       seq (call (Call_to_device (done_message ev sas) (Some (JStr (sas_transaction_id sas))))
                 (to_device client (done_message ev sas)
                    (Some (JStr (sas_transaction_id sas))))) (\<lambda>r.
       when_error r (\<lambda>d. LogError (DoneFailed d))))))
     else if lower_is yn CHR ''n'' CHR ''N'' then
       seq (emit (Print NoMatch)) (\<lambda>_.
       seq (call (Call_cancel_key_verification transaction_id True)
                 (cancel_key_verification client transaction_id True)) (\<lambda>r.
       when_error r (\<lambda>d. Print (CancelFailed d))))
     else
       seq (emit (Print CancelledByUser)) (\<lambda>_.
       seq (call (Call_cancel_key_verification transaction_id False)
                 (cancel_key_verification client transaction_id False)) (\<lambda>r.
       when_error r (\<lambda>d. Print (CancelFailed d))))))))"

text \<open>Lines 295 to 308: the other device sent its mac.\<close>

definition on_mac :: "'s client \<Rightarrow> event \<Rightarrow> string \<Rightarrow> ('s, action, unit) stmt" where
  "on_mac client ev transaction_id =
     seq (lookup_sas client (JStr transaction_id)) (\<lambda>sas.
     seq (try_except
            (seq (call (Call_get_mac sas) (get_mac client sas)) (\<lambda>m. ret (Some m)))
            is_LocalProtocolError
            (\<lambda>e. seq (emit (Print (ProtocolError
                                    (case e of LocalProtocolError r \<Rightarrow> r | _ \<Rightarrow> [])
                                    (sender ev))))
                      (\<lambda>_. ret None))) (\<lambda>got.
     case got of
       None \<Rightarrow> ret ()
     | Some todevice_msg \<Rightarrow>
         seq (call (Call_to_device todevice_msg None) (to_device client todevice_msg None)) (\<lambda>r.
         when_error r (\<lambda>d. Print (ToDeviceFailed d)))))"

text \<open>Lines 311 to 327: the other device acknowledges the verification.\<close>

definition on_done :: "'s client \<Rightarrow> event \<Rightarrow> ('s, action, unit) stmt" where
  "on_done client ev =
     seq (lift (subscript (source ev) ''content'')) (\<lambda>c.
     seq (lift (subscript c ''transaction_id'')) (\<lambda>txid.
     seq (lookup_sas client txid) (\<lambda>sas.
     seq (emit (Print (SasFlags sas))) (\<lambda>_.
     emit (Print VerificationSuccessful)))))"

text \<open>
  Lines 116 to 332, the body of the \<^verbatim>\<open>try\<close>: the branches in the order of the
  source, the test of the source's type first.
\<close>

definition handle_event :: "'s client \<Rightarrow> event \<Rightarrow> ('s, action, unit) stmt" where
  "handle_event client ev =
     seq (lift (subscript (source ev) ''type'')) (\<lambda>ty.
     if ty = JStr request_type then on_request client ev
     else case cls ev of
       KeyVerificationStart t sas_formats \<Rightarrow> on_start client ev t sas_formats
     | KeyVerificationCancel t reason \<Rightarrow> on_cancel client ev reason
     | KeyVerificationKey t \<Rightarrow> on_key client ev t
     | KeyVerificationMac t \<Rightarrow> on_mac client ev t
     | UnknownToDeviceEvent \<Rightarrow>
         if ty = JStr done_type then on_done client ev
         else emit (Print UnexpectedEvent))"

text \<open>
  Lines 113 to 334: the handler. Whatever the body raises is an instance of
  \<^verbatim>\<open>BaseException\<close>; the handler prints the traceback and returns.
\<close>

definition to_device_callback :: "'s client \<Rightarrow> event \<Rightarrow> ('s, action, unit) stmt" where
  "to_device_callback client ev =
     try_except (handle_event client ev) is_BaseException (\<lambda>e. emit (Print (Traceback e)))"

section \<open>The dispatch loop and the module's entry point\<close>

text \<open>
  The handler is registered with the library (line 445), whose sync loop (line 455)
  awaits it once for every to-device event of a response, in order. An exception that
  leaves a callback leaves the loop.
\<close>

fun dispatch :: "(event \<Rightarrow> ('s, 't, unit) stmt) \<Rightarrow> event list \<Rightarrow> ('s, 't, unit) stmt" where
  "dispatch cb [] = ret ()"
| "dispatch cb (ev # evs) = seq (cb ev) (\<lambda>_. dispatch cb evs)"










section \<open>Login with or without stored credentials\<close>

text \<open>
  The client handle (\<^verbatim>\<open>AsyncClient\<close>), by the attributes that the constructor,
  \<^verbatim>\<open>login\<close> and \<^verbatim>\<open>restore_login\<close> set. The values are whatever Python value the
  program passes, so they are JSON values.
\<close>

record handle =
  homeserver :: json
  user :: json
  handle_user_id :: json
  handle_device_id :: json
  access_token :: json

datatype login_result =
    LoginResponse string string string
  | LoginError string

fun resp_user_id :: "login_result \<Rightarrow> string" where
  "resp_user_id (LoginResponse u d t) = u"
| "resp_user_id (LoginError m) = []"

fun resp_device_id :: "login_result \<Rightarrow> string" where
  "resp_device_id (LoginResponse u d t) = d"
| "resp_device_id (LoginError m) = []"

fun resp_access_token :: "login_result \<Rightarrow> string" where
  "resp_access_token (LoginResponse u d t) = t"
| "resp_access_token (LoginError m) = []"

text \<open>
  The files of the bot directory that \<^verbatim>\<open>login\<close> touches: the credential file
  \<^verbatim>\<open>login.json\<close>, absent or with its contents, and the store directory. The type
  \<open>'f\<close> is the contents of a file.
\<close>

record 'f disk =
  config_file :: "'f option"
  store_exists :: bool

text \<open>
  What is outside \<^verbatim>\<open>login\<close>: the standard library's JSON codec, the operator's
  answers to the three prompts, the server's answer to the password login, and the
  library opening the encryption store of a restored session.
\<close>

record 'f login_env =
  json_dump :: "json \<Rightarrow> 'f"
  json_loads :: "'f \<Rightarrow> exn + json"
  input_homeserver :: "exn + string"
  input_user_id :: "exn + string"
  getpass :: "exn + string"
  client_login :: "handle \<Rightarrow> string \<Rightarrow> string \<Rightarrow> exn + login_result"
  open_store :: "handle \<Rightarrow> exn + unit"

datatype login_log =
    FirstTimeUse
  | LoginFailedDetails string string
  | FailedToLogIn string
  | LoggedInUsingPassword
  | LoggedInUsingStoredCredentials

datatype login_action =
    LPrint login_log
  | Input_homeserver
  | Input_user_id
  | Mkdir_store
  | New_AsyncClient handle
  | Getpass
  | Call_login handle string string
  | Write_config json
  | Read_config
  | Call_restore_login json json json

text \<open>\<^verbatim>\<open>str.startswith\<close>.\<close>

fun startswith :: "string \<Rightarrow> string \<Rightarrow> bool" where
  "startswith s [] = True"
| "startswith [] (p # ps) = False"
| "startswith (c # cs) (p # ps) = (c = p \<and> startswith cs ps)"

text \<open>Lines 382 and 383.\<close>

definition add_scheme :: "string \<Rightarrow> string" where
  "add_scheme typed =
     (if \<not> (startswith typed ''https://'' \<or> startswith typed ''http://'')
      then ''https://'' @ typed else typed)"

text \<open>Lines 337 to 360.\<close>

definition credentials :: "login_result \<Rightarrow> string \<Rightarrow> string \<Rightarrow> json" where
  "credentials resp hs device_name =
     JObj [(''homeserver'', JStr hs),
           (''user_id'', JStr (resp_user_id resp)),
           (''device_id'', JStr (resp_device_id resp)),
           (''access_token'', JStr (resp_access_token resp)),
           (''device_name'', JStr device_name)]"

definition write_file :: "'f \<Rightarrow> 'f disk \<Rightarrow> (exn + unit) \<times> 'f disk" where
  "write_file contents d = (Inr (), d\<lparr>config_file := Some contents\<rparr>)"

definition write_details_to_disk ::
  "'f login_env \<Rightarrow> login_result \<Rightarrow> string \<Rightarrow> string \<Rightarrow> ('f disk, login_action, unit) stmt" where
  "write_details_to_disk env resp hs device_name =
     call (Write_config (credentials resp hs device_name))
          (write_file (json_dump env (credentials resp hs device_name)))"

text \<open>The constructor of the handle, by the attributes it sets (lines 392 and 422).\<close>

definition AsyncClient :: "json \<Rightarrow> json \<Rightarrow> json \<Rightarrow> handle" where
  "AsyncClient hs usr dev =
     \<lparr>homeserver = hs, user = usr, handle_user_id = JStr [], handle_device_id = dev,
      access_token = JStr []\<rparr>"

text \<open>
  The three attributes that \<^verbatim>\<open>restore_login\<close> and a successful \<^verbatim>\<open>login\<close> set on
  the client.
\<close>

definition set_login :: "handle \<Rightarrow> json \<Rightarrow> json \<Rightarrow> json \<Rightarrow> handle" where
  "set_login client uid dev token =
     client\<lparr>handle_user_id := uid, handle_device_id := dev, access_token := token\<rparr>"

text \<open>Python's truth value of a value, as \<^verbatim>\<open>not x\<close> tests it.\<close>

fun truthy :: "json \<Rightarrow> bool" where
  "truthy JNull = False"
| "truthy (JBool b) = b"
| "truthy (JNum n) = (n \<noteq> 0)"
| "truthy (JStr s) = (s \<noteq> [])"
| "truthy (JList xs) = (xs \<noteq> [])"
| "truthy (JObj kvs) = (kvs \<noteq> [])"

text \<open>
  The library's \<^verbatim>\<open>load_store\<close>, which \<^verbatim>\<open>restore_login\<close> runs: it refuses an empty
  user id or device id, and opening the store fails when the store directory is not
  there; otherwise the library opens the store, which may fail.
\<close>

definition load_store :: "'f login_env \<Rightarrow> handle \<Rightarrow> ('f disk, 't, unit) stmt" where
  "load_store env client =
     (if \<not> truthy (handle_user_id client) then raise (LocalProtocolError ''User id is not set'')
      else if \<not> truthy (handle_device_id client)
      then raise (LocalProtocolError ''Device id is not set'')
      else seq (reads store_exists) (\<lambda>there.
           if \<not> there then raise OperationalError else lift (open_store env client)))"

definition mkdir_store :: "'f disk \<Rightarrow> (exn + unit) \<times> 'f disk" where
  "mkdir_store d = (Inr (), d\<lparr>store_exists := True\<rparr>)"

text \<open>Lines 375 to 413: no credential file, the password is used.\<close>

definition first_login :: "'f login_env \<Rightarrow> string \<Rightarrow> ('f disk, login_action, handle) stmt" where
  "first_login env device_name =
     seq (emit (LPrint FirstTimeUse)) (\<lambda>_.
     seq (call Input_homeserver (\<lambda>d. (input_homeserver env, d))) (\<lambda>typed.
     seq (ret (add_scheme typed)) (\<lambda>hs.
     seq (call Input_user_id (\<lambda>d. (input_user_id env, d))) (\<lambda>uid.
     seq (reads store_exists) (\<lambda>store.
     seq (if \<not> store then call Mkdir_store mkdir_store else ret ()) (\<lambda>_.
     seq (emit (New_AsyncClient (AsyncClient (JStr hs) (JStr uid) (JStr [])))) (\<lambda>_.
     seq (call Getpass (\<lambda>d. (getpass env, d))) (\<lambda>pw.
     seq (call (Call_login (AsyncClient (JStr hs) (JStr uid) (JStr [])) pw device_name)
               (\<lambda>d. (client_login env (AsyncClient (JStr hs) (JStr uid) (JStr [])) pw device_name, d)))
         (\<lambda>resp.
     seq (case resp of
            LoginResponse u dev token \<Rightarrow> write_details_to_disk env resp hs device_name
          | LoginError msg \<Rightarrow>
              seq (emit (LPrint (LoginFailedDetails hs uid))) (\<lambda>_.
              seq (emit (LPrint (FailedToLogIn msg))) (\<lambda>_.
              raise (SystemExit 1)))) (\<lambda>_.
     seq (emit (LPrint LoggedInUsingPassword)) (\<lambda>_.
     ret (set_login (AsyncClient (JStr hs) (JStr uid) (JStr []))
            (JStr (resp_user_id resp)) (JStr (resp_device_id resp))
            (JStr (resp_access_token resp))))))))))))))"

text \<open>Lines 430 to 434: the attributes are set, then the store is loaded.\<close>

definition restore_login ::
  "'f login_env \<Rightarrow> handle \<Rightarrow> json \<Rightarrow> json \<Rightarrow> json \<Rightarrow> ('f disk, login_action, handle) stmt" where
  "restore_login env client uid dev token =
     seq (emit (Call_restore_login uid dev token)) (\<lambda>_.
     seq (load_store env (set_login client uid dev token)) (\<lambda>_.
     ret (set_login client uid dev token)))"

text \<open>Lines 416 to 435: the credential file exists, the stored credentials are used.\<close>

definition stored_login ::
  "'f login_env \<Rightarrow> 'f \<Rightarrow> ('f disk, login_action, handle) stmt" where
  "stored_login env contents =
     seq (emit Read_config) (\<lambda>_.
     seq (lift (json_loads env contents)) (\<lambda>config.
     seq (lift (subscript config ''homeserver'')) (\<lambda>hs.
     seq (lift (subscript config ''user_id'')) (\<lambda>usr.
     seq (lift (subscript config ''device_id'')) (\<lambda>dev.
     seq (emit (New_AsyncClient (AsyncClient hs usr dev))) (\<lambda>_.
     seq (lift (subscript config ''user_id'')) (\<lambda>uid.
     seq (lift (subscript config ''device_id'')) (\<lambda>did.
     seq (lift (subscript config ''access_token'')) (\<lambda>token.
     seq (restore_login env (AsyncClient hs usr dev) uid did token) (\<lambda>client.
     seq (emit (LPrint LoggedInUsingStoredCredentials)) (\<lambda>_.
     ret client)))))))))))"

text \<open>Lines 363 to 437.\<close>

definition login :: "'f login_env \<Rightarrow> string \<Rightarrow> ('f disk, login_action, handle) stmt" where
  "login env device_name =
     seq (reads config_file) (\<lambda>found.
     case found of
       None \<Rightarrow> first_login env device_name
     | Some contents \<Rightarrow> stored_login env contents)"

text \<open>
  The program started again and again on the same directory, each time with its own
  operator and server; a process ends when \<^verbatim>\<open>login\<close> raises, and the next start finds
  the disk as the last one left it.
\<close>

fun process_starts ::
  "('f login_env \<times> string) list \<Rightarrow> 'f disk \<times> login_action list \<Rightarrow> 'f disk \<times> login_action list" where
  "process_starts [] w = w"
| "process_starts ((env, device_name) # rest) w = process_starts rest (snd (login env device_name w))"

section \<open>What is observed of a run\<close>

definition trace_of :: "(exn + 'a) \<times> 's \<times> 't list \<Rightarrow> 't list" where
  "trace_of r = snd (snd r)"

definition state_of :: "(exn + 'a) \<times> 's \<times> 't list \<Rightarrow> 's" where
  "state_of r = fst (snd r)"

definition outcome :: "(exn + 'a) \<times> 's \<times> 't list \<Rightarrow> exn + 'a" where
  "outcome r = fst r"

fun to_device_of :: "action \<Rightarrow> (ToDeviceMessage \<times> json option) list" where
  "to_device_of (Call_to_device m t) = [(m, t)]"
| "to_device_of a = []"

text \<open>The to-device messages sent, in order, each with the transaction id passed along.\<close>

definition sent :: "action list \<Rightarrow> (ToDeviceMessage \<times> json option) list" where
  "sent tr = concat (map to_device_of tr)"

fun is_call :: "action \<Rightarrow> bool" where
  "is_call (Print l) = False"
| "is_call (LogError l) = False"
| "is_call a = True"

text \<open>The calls into the library and the prompt, in order, without the printing.\<close>

definition calls :: "action list \<Rightarrow> action list" where
  "calls tr = filter is_call tr"

fun is_write :: "login_action \<Rightarrow> bool" where
  "is_write (Write_config doc) = True"
| "is_write a = False"

definition writes :: "login_action list \<Rightarrow> login_action list" where
  "writes tr = filter is_write tr"

fun is_password_login :: "login_action \<Rightarrow> bool" where
  "is_password_login (Call_login c pw name) = True"
| "is_password_login a = False"

section \<open>Concrete clients and events\<close>

text \<open>
  A client that knows no transaction: every call for one raises, as the library does
  for a transaction id that is not in its table, and sending succeeds.
\<close>

definition quiet_client :: "unit client" where
  "quiet_client =
     \<lparr>device_id = (\<lambda>s. Some ''BOTDEVICE''),
      user_id = (\<lambda>s. Some ''@bot:example.org''),
      key_verifications = (\<lambda>s t. None),
      to_device = (\<lambda>m t s. (Inr ToDeviceResponse, s)),
      accept_key_verification = (\<lambda>t s. (Inl (LocalProtocolError ''unknown transaction''), s)),
      confirm_short_auth_string = (\<lambda>t s. (Inl (LocalProtocolError ''unknown transaction''), s)),
      cancel_key_verification = (\<lambda>t r s. (Inl (LocalProtocolError ''unknown transaction''), s)),
      share_key = (\<lambda>x s. (Inl (LocalProtocolError ''canceled''), s)),
      get_mac = (\<lambda>x s. (Inl (LocalProtocolError ''canceled''), s)),
      get_emoji = (\<lambda>x s. (Inl (LocalProtocolError ''canceled''), s)),
      input = (\<lambda>s. (Inl KeyboardInterrupt, s))\<rparr>"

definition request_content :: "string \<Rightarrow> json" where
  "request_content m =
     JObj [(''from_device'', JStr ''PHONE''), (''methods'', JList [JStr m]),
           (''transaction_id'', JStr ''tx1'')]"

definition request_event :: "string \<Rightarrow> event" where
  "request_event m =
     \<lparr>source = JObj [(''type'', JStr ''m.key.verification.request''),
                     (''sender'', JStr ''@alice:example.org''),
                     (''content'', request_content m)],
      sender = ''@alice:example.org'',
      cls = UnknownToDeviceEvent\<rparr>"

definition event_of :: "string \<Rightarrow> event_class \<Rightarrow> event" where
  "event_of ty c =
     \<lparr>source = JObj [(''type'', JStr ty), (''sender'', JStr ''@alice:example.org''),
                     (''content'', JObj [(''transaction_id'', JStr ''tx1'')])],
      sender = ''@alice:example.org'',
      cls = c\<rparr>"

definition cancel_event :: event where
  "cancel_event =
     event_of ''m.key.verification.cancel''
       (KeyVerificationCancel ''tx1'' ''Mismatched short authentication string'')"

definition the_sas :: sas where
  "the_sas =
     \<lparr>sas_transaction_id = ''tx1'', other_olm_device_id = ''PHONE'', we_started_it = False,
      sas_accepted = False, canceled = False, timed_out = False, verified = False\<rparr>"

definition key_msg :: ToDeviceMessage where
  "key_msg =
     \<lparr>msg_type = ''m.key.verification.key'', recipient = ''@alice:example.org'',
      recipient_device = JStr ''PHONE'',
      content = JObj [(''key'', JStr ''OURKEY''), (''transaction_id'', JStr ''tx1'')]\<rparr>"

definition mac_msg :: ToDeviceMessage where
  "mac_msg =
     \<lparr>msg_type = ''m.key.verification.mac'', recipient = ''@alice:example.org'',
      recipient_device = JStr ''PHONE'',
      content = JObj [(''keys'', JStr ''OURMAC''), (''transaction_id'', JStr ''tx1'')]\<rparr>"

text \<open>
  A client with the transaction \<^verbatim>\<open>tx1\<close> in its table, an operator who answers the
  prompt with \<open>answer\<close>, and a transaction that is either live or has \<open>expired\<close>:
  the library then refuses to confirm it and to compute its mac.
\<close>

definition sas_client :: "exn + string \<Rightarrow> bool \<Rightarrow> unit client" where
  "sas_client answer expired =
     \<lparr>device_id = (\<lambda>s. Some ''BOTDEVICE''),
      user_id = (\<lambda>s. Some ''@bot:example.org''),
      key_verifications = (\<lambda>s t. if t = ''tx1'' then Some the_sas else None),
      to_device = (\<lambda>m t s. (Inr ToDeviceResponse, s)),
      accept_key_verification = (\<lambda>t s. (Inr ToDeviceResponse, s)),
      confirm_short_auth_string =
        (\<lambda>t s. (if expired then Inl (LocalProtocolError ''canceled'') else Inr ToDeviceResponse, s)),
      cancel_key_verification = (\<lambda>t r s. (Inr ToDeviceResponse, s)),
      share_key = (\<lambda>x s. (Inr key_msg, s)),
      get_mac = (\<lambda>x s. (if expired then Inl (LocalProtocolError ''canceled'') else Inr mac_msg, s)),
      get_emoji = (\<lambda>x s. (Inr [(''dog'', ''Dog''), (''cat'', ''Cat'')], s)),
      input = (\<lambda>s. (answer, s))\<rparr>"

definition start_event :: "string list \<Rightarrow> event" where
  "start_event formats =
     event_of ''m.key.verification.start'' (KeyVerificationStart ''tx1'' formats)"

definition key_event :: event where
  "key_event = event_of ''m.key.verification.key'' (KeyVerificationKey ''tx1'')"

definition mac_event :: event where
  "mac_event = event_of ''m.key.verification.mac'' (KeyVerificationMac ''tx1'')"

text \<open>
  An operator who types a homeserver without a scheme, and a server that accepts the
  password; the contents of a file are the document itself.
\<close>

definition plain_env :: "json login_env" where
  "plain_env =
     \<lparr>json_dump = (\<lambda>doc. doc),
      json_loads = (\<lambda>contents. Inr contents),
      input_homeserver = Inr ''matrix.example.org'',
      input_user_id = Inr ''@bot:example.org'',
      getpass = Inr ''secret'',
      client_login = (\<lambda>c pw name. Inr (LoginResponse ''@bot:example.org'' ''BOTDEVICE'' ''TOKEN'')),
      open_store = (\<lambda>c. Inr ())\<rparr>"

definition fresh_disk :: "json disk" where
  "fresh_disk = \<lparr>config_file = None, store_exists = False\<rparr>"

definition store_disk :: "json disk" where
  "store_disk = \<lparr>config_file = None, store_exists = True\<rparr>"

text \<open>A request that offers the method and names its transaction, but not its device.\<close>

definition anonymous_request :: event where
  "anonymous_request =
     \<lparr>source = JObj [(''type'', JStr ''m.key.verification.request''),
                     (''sender'', JStr ''@alice:example.org''),
                     (''content'', JObj [(''methods'', JList [JStr ''m.sas.v1'']),
                                        (''transaction_id'', JStr ''tx1'')])],
      sender = ''@alice:example.org'',
      cls = UnknownToDeviceEvent\<rparr>"





section \<open>Facts about running statements\<close>

lemmas stmt_defs = seq_def lift_def ret_def raise_def emit_def reads_def call_def
  try_except_def when_error_def assert_not_None_def is_BaseException_def

lemmas obs_defs = trace_of_def state_of_def outcome_def sent_def calls_def

lemma callback_unfold:
  "to_device_callback client ev w =
     (case handle_event client ev w of
        (Inl e, s, tr) \<Rightarrow> (Inr (), s, tr @ [Print (Traceback e)])
      | (Inr u, s, tr) \<Rightarrow> (Inr u, s, tr))"
  by (simp add: to_device_callback_def try_except_def is_BaseException_def emit_def
      split: prod.splits sum.splits)

lemma callback_returns: "fst (to_device_callback client ev w) = Inr ()"
  by (simp add: callback_unfold split: prod.splits sum.splits)

lemma dispatch_step:
  "dispatch (to_device_callback client) (ev # evs) w =
     dispatch (to_device_callback client) evs (snd (to_device_callback client ev w))"
  using callback_returns [of client ev w]
  by (cases "to_device_callback client ev w") (simp add: seq_def)

lemma dispatch_returns: "fst (dispatch (to_device_callback client) evs w) = Inr ()"
proof (induction evs arbitrary: w)
  case Nil
  show ?case by (simp add: ret_def)
next
  case (Cons ev evs)
  show ?case by (simp only: dispatch_step Cons.IH)
qed

lemma dispatch_append:
  "dispatch (to_device_callback client) (evs @ evs') w =
     dispatch (to_device_callback client) evs' (snd (dispatch (to_device_callback client) evs w))"
proof (induction evs arbitrary: w)
  case Nil
  show ?case by (simp add: ret_def)
next
  case (Cons ev evs)
  show ?case by (simp only: append_Cons dispatch_step Cons.IH)
qed

section \<open>The branches of the handler, path by path\<close>

lemma handle_event_class:
  assumes "subscript (source ev) ''type'' = Inr ty" and "ty \<noteq> JStr request_type"
  shows "handle_event client ev w =
     (case cls ev of
       KeyVerificationStart t sas_formats \<Rightarrow> on_start client ev t sas_formats w
     | KeyVerificationCancel t reason \<Rightarrow> on_cancel client ev reason w
     | KeyVerificationKey t \<Rightarrow> on_key client ev t w
     | KeyVerificationMac t \<Rightarrow> on_mac client ev t w
     | UnknownToDeviceEvent \<Rightarrow>
         (if ty = JStr done_type then on_done client ev w
          else emit (Print UnexpectedEvent) w))"
  using assms
  by (simp add: handle_event_def seq_def lift_def ret_def split: event_class.splits)

lemma lookup_sas_str:
  "lookup_sas client (JStr t) (s, tr) =
     (case key_verifications client s t of
        None \<Rightarrow> (Inl KeyError, s, tr) | Some x \<Rightarrow> (Inr x, s, tr))"
  by (simp add: lookup_sas_def seq_def reads_def raise_def ret_def split: option.splits)

lemma on_start_no_emoji:
  "''emoji'' \<notin> set formats \<Longrightarrow>
   on_start client ev t formats (s, tr) = (Inr (), s, tr @ [Print (NoEmojiSupport formats)])"
  by (simp add: on_start_def emit_def)

lemma on_start_accept_raises:
  "''emoji'' \<in> set formats \<Longrightarrow> accept_key_verification client t s = (Inl e, s1) \<Longrightarrow>
   on_start client ev t formats (s, tr) = (Inl e, s1, tr @ [Call_accept_key_verification t])"
  by (simp add: on_start_def seq_def call_def)

lemma on_start_unknown:
  "''emoji'' \<in> set formats \<Longrightarrow> accept_key_verification client t s = (Inr r, s1) \<Longrightarrow>
   key_verifications client s1 t = None \<Longrightarrow>
   calls (trace_of (on_start client ev t formats (s, tr))) = calls tr @ [Call_accept_key_verification t]
   \<and> outcome (on_start client ev t formats (s, tr)) = Inl KeyError"
  by (cases r) (simp_all add: on_start_def seq_def call_def when_error_def emit_def ret_def
      lookup_sas_str calls_def trace_of_def outcome_def)

lemma on_start_share_raises:
  "''emoji'' \<in> set formats \<Longrightarrow> accept_key_verification client t s = (Inr r, s1) \<Longrightarrow>
   key_verifications client s1 t = Some x \<Longrightarrow> share_key client x s1 = (Inl e, s2) \<Longrightarrow>
   calls (trace_of (on_start client ev t formats (s, tr))) =
     calls tr @ [Call_accept_key_verification t, Call_share_key x]
   \<and> outcome (on_start client ev t formats (s, tr)) = Inl e"
  by (cases r) (simp_all add: on_start_def seq_def call_def when_error_def emit_def ret_def
      lookup_sas_str calls_def trace_of_def outcome_def)

lemma on_start_shares:
  "''emoji'' \<in> set formats \<Longrightarrow> accept_key_verification client t s = (Inr r, s1) \<Longrightarrow>
   key_verifications client s1 t = Some x \<Longrightarrow> share_key client x s1 = (Inr m, s2) \<Longrightarrow>
   calls (trace_of (on_start client ev t formats (s, tr))) =
     calls tr @ [Call_accept_key_verification t, Call_share_key x, Call_to_device m None]"
  by (cases r; cases "to_device client m None s2"; cases "fst (to_device client m None s2)")
    (auto simp: on_start_def seq_def call_def when_error_def emit_def ret_def
      lookup_sas_str calls_def trace_of_def split: resp.splits)

lemma sent_calls: "sent (calls tr) = sent tr"
proof (induction tr)
  case Nil
  show ?case by (simp add: sent_def calls_def)
next
  case (Cons a tr)
  then show ?case by (cases a) (simp_all add: sent_def calls_def)
qed

lemma sent_append: "sent (xs @ ys) = sent xs @ sent ys"
  by (simp add: sent_def)

lemma callback_calls:
  "calls (trace_of (to_device_callback client ev w)) = calls (trace_of (handle_event client ev w))"
  by (simp add: callback_unfold trace_of_def calls_def split: prod.splits sum.splits)

lemma on_key_prompt:
  assumes "key_verifications client s t = Some x"
    and "get_emoji client x s = (Inr em, s1)"
  shows "on_key client ev t (s, tr) =
     (case input client s1 of
        (Inl e, s2) \<Rightarrow> (Inl e, s2, tr @ [Call_get_emoji x, Print (Emoji em), Call_input])
      | (Inr yn, s2) \<Rightarrow>
          (if lower_is yn CHR ''y'' CHR ''Y'' then
             seq (emit (Print Match)) (\<lambda>_.
             seq (call (Call_confirm_short_auth_string t) (confirm_short_auth_string client t)) (\<lambda>r.
             seq (when_error r (\<lambda>d. Print (ConfirmFailed d))) (\<lambda>_.
             seq (call (Call_to_device (done_message ev x) (Some (JStr (sas_transaction_id x))))
                       (to_device client (done_message ev x) (Some (JStr (sas_transaction_id x))))) (\<lambda>r.
             when_error r (\<lambda>d. LogError (DoneFailed d))))))
           else if lower_is yn CHR ''n'' CHR ''N'' then
             seq (emit (Print NoMatch)) (\<lambda>_.
             seq (call (Call_cancel_key_verification t True) (cancel_key_verification client t True)) (\<lambda>r.
             when_error r (\<lambda>d. Print (CancelFailed d))))
           else
             seq (emit (Print CancelledByUser)) (\<lambda>_.
             seq (call (Call_cancel_key_verification t False) (cancel_key_verification client t False)) (\<lambda>r.
             when_error r (\<lambda>d. Print (CancelFailed d)))))
          (s2, tr @ [Call_get_emoji x, Print (Emoji em), Call_input]))"
  using assms
  by (simp add: on_key_def lookup_sas_str seq_def call_def emit_def split: prod.splits sum.splits)


lemma on_key_yes:
  "key_verifications client s t = Some x \<Longrightarrow> get_emoji client x s = (Inr em, s1) \<Longrightarrow>
   input client s1 = (Inr yn, s2) \<Longrightarrow> lower_is yn CHR ''y'' CHR ''Y'' \<Longrightarrow>
   confirm_short_auth_string client t s2 = (Inr r, s3) \<Longrightarrow>
   calls (trace_of (on_key client ev t (s, tr))) =
     calls tr @ [Call_get_emoji x, Call_input, Call_confirm_short_auth_string t,
                 Call_to_device (done_message ev x) (Some (JStr (sas_transaction_id x)))]"
  by (cases r; cases "to_device client (done_message ev x) (Some (JStr (sas_transaction_id x))) s3";
      cases "fst (to_device client (done_message ev x) (Some (JStr (sas_transaction_id x))) s3)")
    (auto simp: on_key_prompt seq_def call_def when_error_def emit_def ret_def
      calls_def trace_of_def split: resp.splits)

lemma on_key_yes_raises:
  "key_verifications client s t = Some x \<Longrightarrow> get_emoji client x s = (Inr em, s1) \<Longrightarrow>
   input client s1 = (Inr yn, s2) \<Longrightarrow> lower_is yn CHR ''y'' CHR ''Y'' \<Longrightarrow>
   confirm_short_auth_string client t s2 = (Inl e, s3) \<Longrightarrow>
   on_key client ev t (s, tr) =
     (Inl e, s3, tr @ [Call_get_emoji x, Print (Emoji em), Call_input, Print Match,
                       Call_confirm_short_auth_string t])"
  by (simp add: on_key_prompt seq_def call_def emit_def)

lemma on_key_no:
  "key_verifications client s t = Some x \<Longrightarrow> get_emoji client x s = (Inr em, s1) \<Longrightarrow>
   input client s1 = (Inr yn, s2) \<Longrightarrow> \<not> lower_is yn CHR ''y'' CHR ''Y'' \<Longrightarrow>
   calls (trace_of (on_key client ev t (s, tr))) =
     calls tr @ [Call_get_emoji x, Call_input,
                 Call_cancel_key_verification t (lower_is yn CHR ''n'' CHR ''N'')]"
  by (cases "cancel_key_verification client t True s2";
      cases "cancel_key_verification client t False s2";
      cases "fst (cancel_key_verification client t True s2)";
      cases "fst (cancel_key_verification client t False s2)")
    (auto simp: on_key_prompt seq_def call_def when_error_def emit_def ret_def
      calls_def trace_of_def split: resp.splits)

lemma on_mac_unknown:
  "key_verifications client s t = None \<Longrightarrow> on_mac client ev t (s, tr) = (Inl KeyError, s, tr)"
  by (simp add: on_mac_def lookup_sas_str seq_def)

lemma on_mac_protocol_error:
  "key_verifications client s t = Some x \<Longrightarrow> get_mac client x s = (Inl (LocalProtocolError r), s1) \<Longrightarrow>
   on_mac client ev t (s, tr) =
     (Inr (), s1, tr @ [Call_get_mac x, Print (ProtocolError r (sender ev))])"
  by (simp add: on_mac_def lookup_sas_str seq_def call_def try_except_def emit_def ret_def)

lemma on_mac_other_error:
  "key_verifications client s t = Some x \<Longrightarrow> get_mac client x s = (Inl e, s1) \<Longrightarrow>
   \<not> is_LocalProtocolError e \<Longrightarrow>
   on_mac client ev t (s, tr) = (Inl e, s1, tr @ [Call_get_mac x])"
  by (simp add: on_mac_def lookup_sas_str seq_def call_def try_except_def emit_def ret_def)

lemma on_mac_sends:
  "key_verifications client s t = Some x \<Longrightarrow> get_mac client x s = (Inr m, s1) \<Longrightarrow>
   calls (trace_of (on_mac client ev t (s, tr))) = calls tr @ [Call_get_mac x, Call_to_device m None]"
  by (cases "to_device client m None s1"; cases "fst (to_device client m None s1)")
    (auto simp: on_mac_def lookup_sas_str seq_def call_def try_except_def when_error_def
      emit_def ret_def calls_def trace_of_def split: resp.splits)

lemma start_event_run:
  assumes "subscript (source ev) ''type'' = Inr ty" and "ty \<noteq> JStr request_type"
    and "cls ev = KeyVerificationStart t formats"
  shows "handle_event client ev w = on_start client ev t formats w"
  using assms by (simp add: handle_event_class)

lemma key_event_run:
  assumes "subscript (source ev) ''type'' = Inr ty" and "ty \<noteq> JStr request_type"
    and "cls ev = KeyVerificationKey t"
  shows "handle_event client ev w = on_key client ev t w"
  using assms by (simp add: handle_event_class)

lemma mac_event_run:
  assumes "subscript (source ev) ''type'' = Inr ty" and "ty \<noteq> JStr request_type"
    and "cls ev = KeyVerificationMac t"
  shows "handle_event client ev w = on_mac client ev t w"
  using assms by (simp add: handle_event_class)


lemma key_event_facts:
  "subscript (source key_event) ''type'' = Inr (JStr ''m.key.verification.key'')"
  "JStr ''m.key.verification.key'' \<noteq> JStr request_type"
  "cls key_event = KeyVerificationKey ''tx1''"
  "sender key_event = ''@alice:example.org''"
  by (simp_all add: key_event_def event_of_def request_type_def)

lemma sas_client_facts:
  "key_verifications (sas_client answer expired) () ''tx1'' = Some the_sas"
  "get_emoji (sas_client answer expired) the_sas () = (Inr [(''dog'', ''Dog''), (''cat'', ''Cat'')], ())"
  "input (sas_client answer expired) () = (answer, ())"
  "confirm_short_auth_string (sas_client answer expired) ''tx1'' () =
     (if expired then Inl (LocalProtocolError ''canceled'') else Inr ToDeviceResponse, ())"
  "get_mac (sas_client answer expired) the_sas () =
     (if expired then Inl (LocalProtocolError ''canceled'') else Inr mac_msg, ())"
  "sas_transaction_id the_sas = ''tx1''"
  "other_olm_device_id the_sas = ''PHONE''"
  by (simp_all add: sas_client_def the_sas_def)


lemma mac_event_facts:
  "subscript (source mac_event) ''type'' = Inr (JStr ''m.key.verification.mac'')"
  "JStr ''m.key.verification.mac'' \<noteq> JStr request_type"
  "cls mac_event = KeyVerificationMac ''tx1''"
  "sender mac_event = ''@alice:example.org''"
  by (simp_all add: mac_event_def event_of_def request_type_def)

section \<open>Verification requests\<close>

text \<open>
  C1, as amended. A verification request is an event whose source has the type
  \<^verbatim>\<open>m.key.verification.request\<close> and a content with the list \<^verbatim>\<open>methods\<close>. When
  \<^verbatim>\<open>m.sas.v1\<close> is not in the list, the handler sends nothing. When it is, and the
  content has the transaction id and the requesting device and the client has its
  device id and user id, the handler sends exactly one message: a
  \<^verbatim>\<open>m.key.verification.ready\<close> to the requesting device whose content is this
  device's id, the one method \<^verbatim>\<open>m.sas.v1\<close> and the transaction id of the request.
  This holds whatever the library answers to the send.
\<close>

theorem request_reply:
  assumes "subscript (source ev) ''type'' = Inr (JStr request_type)"
    and "subscript (source ev) ''content'' = Inr c"
    and "subscript c ''methods'' = Inr (JList ms)"
  shows "(JStr ''m.sas.v1'' \<notin> set ms
          \<longrightarrow> sent (trace_of (to_device_callback client ev (s, tr))) = sent tr)
       \<and> (JStr ''m.sas.v1'' \<in> set ms \<and>
            subscript c ''transaction_id'' = Inr txid \<and>
            subscript c ''from_device'' = Inr fd \<and>
            device_id client s = Some d \<and> user_id client s = Some u
          \<longrightarrow> sent (trace_of (to_device_callback client ev (s, tr))) = sent tr @
              [(\<lparr>msg_type = ''m.key.verification.ready'', recipient = sender ev,
                 recipient_device = fd,
                 content = JObj [(''from_device'', JStr d),
                                 (''methods'', JList [JStr ''m.sas.v1'']),
                                 (''transaction_id'', txid)]\<rparr>, Some txid)])"
  using assms
  by (auto simp: callback_unfold handle_event_def on_request_def stmt_defs obs_defs
      ready_event_def split: prod.splits sum.splits resp.splits)

theorem request_reply_witness:
  "sent (trace_of (to_device_callback quiet_client (request_event ''m.sas.v1'') ((), []))) =
     [(\<lparr>msg_type = ''m.key.verification.ready'', recipient = ''@alice:example.org'',
        recipient_device = JStr ''PHONE'',
        content = JObj [(''from_device'', JStr ''BOTDEVICE''),
                        (''methods'', JList [JStr ''m.sas.v1'']),
                        (''transaction_id'', JStr ''tx1'')]\<rparr>, Some (JStr ''tx1''))]
   \<and> sent (trace_of (to_device_callback quiet_client (request_event ''m.other.v1'') ((), []))) = []"
proof -
  have ty: "subscript (source (request_event m)) ''type'' = Inr (JStr request_type)" for m
    by (simp add: request_event_def request_type_def)
  have c: "subscript (source (request_event m)) ''content'' = Inr (request_content m)" for m
    by (simp add: request_event_def)
  have ms: "subscript (request_content m) ''methods'' = Inr (JList [JStr m])" for m
    by (simp add: request_content_def)
  have tx: "subscript (request_content m) ''transaction_id'' = Inr (JStr ''tx1'')" for m
    by (simp add: request_content_def)
  have fd: "subscript (request_content m) ''from_device'' = Inr (JStr ''PHONE'')" for m
    by (simp add: request_content_def)
  have d: "device_id quiet_client () = Some ''BOTDEVICE''"
    and u: "user_id quiet_client () = Some ''@bot:example.org''"
    by (simp_all add: quiet_client_def)
  have one: "sent (trace_of (to_device_callback quiet_client (request_event ''m.sas.v1'') ((), []))) =
     sent [] @ [(\<lparr>msg_type = ''m.key.verification.ready'',
        recipient = sender (request_event ''m.sas.v1''),
        recipient_device = JStr ''PHONE'',
        content = JObj [(''from_device'', JStr ''BOTDEVICE''),
                        (''methods'', JList [JStr ''m.sas.v1'']),
                        (''transaction_id'', JStr ''tx1'')]\<rparr>, Some (JStr ''tx1''))]"
    using request_reply [OF ty c ms, where m1 = "''m.sas.v1''" and client = quiet_client
        and s = "()" and tr = "[]" and txid = "JStr ''tx1''" and fd = "JStr ''PHONE''"
        and d = "''BOTDEVICE''" and u = "''@bot:example.org''"] tx fd d u
    by simp
  have none: "sent (trace_of (to_device_callback quiet_client (request_event ''m.other.v1'') ((), []))) = sent []"
    using request_reply [OF ty c ms, where m1 = "''m.other.v1''" and client = quiet_client
        and s = "()" and tr = "[]"]
    by simp
  show ?thesis using one none by (simp add: sent_def request_event_def)
qed

text \<open>
  The claim as stated does not hold for every request: one that offers
  \<^verbatim>\<open>m.sas.v1\<close> and names its transaction but not its device makes line 139 raise
  \<^verbatim>\<open>KeyError\<close>; the handler prints the traceback and sends no reply.
\<close>

theorem request_without_device:
  "subscript (source anonymous_request) ''type'' = Inr (JStr request_type)
   \<and> subscript (source anonymous_request) ''content'' =
       Inr (JObj [(''methods'', JList [JStr ''m.sas.v1'']), (''transaction_id'', JStr ''tx1'')])
   \<and> to_device_callback quiet_client anonymous_request ((), []) =
       (Inr (), (), [Print GotVerificationRequest, Print (Traceback KeyError)])
   \<and> sent (trace_of (to_device_callback quiet_client anonymous_request ((), []))) = []"
  by (simp add: callback_unfold handle_event_def on_request_def anonymous_request_def
      quiet_client_def request_type_def seq_def lift_def ret_def raise_def emit_def reads_def
      assert_not_None_def sent_def trace_of_def)

section \<open>Cancellations\<close>

text \<open>
  C4. For an event of the class \<^verbatim>\<open>KeyVerificationCancel\<close> the handler returns
  normally, calls nothing of the library, sends nothing and leaves the library's state
  as it was, in every state \<open>s\<close> of the library; so does a second cancellation of the
  same transaction after the first.
\<close>

theorem cancel_no_reply:
  assumes "cls ev = KeyVerificationCancel t reason"
    and "subscript (source ev) ''type'' \<noteq> Inr (JStr request_type)"
    and "cls ev' = KeyVerificationCancel t reason'"
    and "subscript (source ev') ''type'' \<noteq> Inr (JStr request_type)"
  shows "outcome (to_device_callback client ev (s, tr)) = Inr ()
       \<and> state_of (to_device_callback client ev (s, tr)) = s
       \<and> calls (trace_of (to_device_callback client ev (s, tr))) = calls tr
       \<and> sent (trace_of (to_device_callback client ev (s, tr))) = sent tr
       \<and> outcome (dispatch (to_device_callback client) [ev, ev'] (s, tr)) = Inr ()
       \<and> state_of (dispatch (to_device_callback client) [ev, ev'] (s, tr)) = s
       \<and> sent (trace_of (dispatch (to_device_callback client) [ev, ev'] (s, tr))) = sent tr"
  using assms
  by (auto simp: callback_unfold handle_event_def on_cancel_def stmt_defs obs_defs
      split: prod.splits sum.splits)

theorem cancel_no_reply_witness:
  "cls cancel_event = KeyVerificationCancel ''tx1'' ''Mismatched short authentication string''
   \<and> outcome (dispatch (to_device_callback quiet_client) [cancel_event, cancel_event] ((), [])) = Inr ()
   \<and> sent (trace_of (dispatch (to_device_callback quiet_client) [cancel_event, cancel_event] ((), []))) = []"
proof -
  have k: "cls cancel_event = KeyVerificationCancel ''tx1'' ''Mismatched short authentication string''"
    by (simp add: cancel_event_def event_of_def)
  have ty: "subscript (source cancel_event) ''type'' \<noteq> Inr (JStr request_type)"
    by (simp add: cancel_event_def event_of_def request_type_def)
  show ?thesis
    using cancel_no_reply [OF k ty k ty, of quiet_client "()" "[]"] k
    by (simp add: sent_def)
qed

section \<open>Exceptions in the handler\<close>

text \<open>
  C6. The handler returns normally for every event, every client and every state.
  When its body raises, what the body did stays done and the traceback of the exception
  is printed last. The loop therefore goes on to the events after it: an event between
  any events before and after it is handled in the state they left, the events after it
  are dispatched next, and the dispatch of all of them returns. Printing the traceback
  itself is taken not to fail.
\<close>

theorem handler_catches_everything:
  "outcome (to_device_callback client ev w) = Inr ()
   \<and> trace_of (to_device_callback client ev w) =
       trace_of (handle_event client ev w) @
       (case outcome (handle_event client ev w) of
          Inl e \<Rightarrow> [Print (Traceback e)] | Inr u \<Rightarrow> [])
   \<and> state_of (to_device_callback client ev w) = state_of (handle_event client ev w)
   \<and> dispatch (to_device_callback client) (evs @ ev # evs') w =
       dispatch (to_device_callback client) evs'
         (snd (to_device_callback client ev (snd (dispatch (to_device_callback client) evs w))))
   \<and> outcome (dispatch (to_device_callback client) (evs @ ev # evs') w) = Inr ()"
proof -
  have a: "outcome (to_device_callback client ev w) = Inr ()"
    by (simp add: outcome_def callback_returns)
  have b: "trace_of (to_device_callback client ev w) =
       trace_of (handle_event client ev w) @
       (case outcome (handle_event client ev w) of
          Inl e \<Rightarrow> [Print (Traceback e)] | Inr u \<Rightarrow> [])"
    by (simp add: callback_unfold trace_of_def outcome_def split: prod.splits sum.splits)
  have c: "state_of (to_device_callback client ev w) = state_of (handle_event client ev w)"
    by (simp add: callback_unfold state_of_def split: prod.splits sum.splits)
  have d: "dispatch (to_device_callback client) (evs @ ev # evs') w =
       dispatch (to_device_callback client) evs'
         (snd (to_device_callback client ev (snd (dispatch (to_device_callback client) evs w))))"
    by (simp only: dispatch_append dispatch_step)
  have e: "outcome (dispatch (to_device_callback client) (evs @ ev # evs') w) = Inr ()"
    by (simp only: outcome_def dispatch_returns)
  from a b c d e show ?thesis by blast
qed

section \<open>The start of a verification\<close>

text \<open>
  C2, as amended. For an event of the class \<^verbatim>\<open>KeyVerificationStart\<close>: when
  \<^verbatim>\<open>emoji\<close> is not among the offered formats, the handler calls nothing of the
  library, so it sends no reply and asks for no key. When it is, the handler calls
  \<^verbatim>\<open>accept_key_verification\<close> first. If that call returns (with either response),
  the transaction is in the library's table and \<^verbatim>\<open>share_key\<close> returns a message,
  the handler then sends exactly that message: the calls are acceptance, key share,
  send, in that order. If the acceptance raises, the transaction is unknown or
  \<^verbatim>\<open>share_key\<close> raises, the handler stops there and sends nothing.
\<close>

theorem start_reply:
  assumes "subscript (source ev) ''type'' = Inr ty" and "ty \<noteq> JStr request_type"
    and "cls ev = KeyVerificationStart t formats"
  shows "(''emoji'' \<notin> set formats
          \<longrightarrow> calls (trace_of (to_device_callback client ev (s, tr))) = calls tr)
       \<and> (''emoji'' \<in> set formats \<and>
            accept_key_verification client t s = (Inr r, s1) \<and>
            key_verifications client s1 t = Some x \<and>
            share_key client x s1 = (Inr m, s2)
          \<longrightarrow> calls (trace_of (to_device_callback client ev (s, tr))) =
                calls tr @ [Call_accept_key_verification t, Call_share_key x, Call_to_device m None])
       \<and> (''emoji'' \<in> set formats \<and> accept_key_verification client t s = (Inl e, s1)
          \<longrightarrow> calls (trace_of (to_device_callback client ev (s, tr))) =
                calls tr @ [Call_accept_key_verification t])
       \<and> (''emoji'' \<in> set formats \<and> accept_key_verification client t s = (Inr r, s1) \<and>
            key_verifications client s1 t = None
          \<longrightarrow> calls (trace_of (to_device_callback client ev (s, tr))) =
                calls tr @ [Call_accept_key_verification t])
       \<and> (''emoji'' \<in> set formats \<and> accept_key_verification client t s = (Inr r, s1) \<and>
            key_verifications client s1 t = Some x \<and> share_key client x s1 = (Inl e, s2)
          \<longrightarrow> calls (trace_of (to_device_callback client ev (s, tr))) =
                calls tr @ [Call_accept_key_verification t, Call_share_key x])"
proof -
  have run: "calls (trace_of (to_device_callback client ev (s, tr))) =
      calls (trace_of (on_start client ev t formats (s, tr)))"
    by (simp only: callback_calls start_event_run [OF assms])
  have c1: "''emoji'' \<notin> set formats \<longrightarrow>
      calls (trace_of (on_start client ev t formats (s, tr))) = calls tr"
    by (simp add: on_start_no_emoji trace_of_def calls_def)
  have c2: "''emoji'' \<in> set formats \<and>
            accept_key_verification client t s = (Inr r, s1) \<and>
            key_verifications client s1 t = Some x \<and>
            share_key client x s1 = (Inr m, s2)
          \<longrightarrow> calls (trace_of (on_start client ev t formats (s, tr))) =
                calls tr @ [Call_accept_key_verification t, Call_share_key x, Call_to_device m None]"
    by (intro impI, elim conjE, rule on_start_shares; assumption)
  have c3: "''emoji'' \<in> set formats \<and> accept_key_verification client t s = (Inl e, s1)
          \<longrightarrow> calls (trace_of (on_start client ev t formats (s, tr))) =
                calls tr @ [Call_accept_key_verification t]"
    by (simp add: on_start_accept_raises trace_of_def calls_def)
  have c4: "''emoji'' \<in> set formats \<and> accept_key_verification client t s = (Inr r, s1) \<and>
            key_verifications client s1 t = None
          \<longrightarrow> calls (trace_of (on_start client ev t formats (s, tr))) =
                calls tr @ [Call_accept_key_verification t]"
    by (intro impI, elim conjE, rule on_start_unknown [THEN conjunct1]; assumption)
  have c5: "''emoji'' \<in> set formats \<and> accept_key_verification client t s = (Inr r, s1) \<and>
            key_verifications client s1 t = Some x \<and> share_key client x s1 = (Inl e, s2)
          \<longrightarrow> calls (trace_of (on_start client ev t formats (s, tr))) =
                calls tr @ [Call_accept_key_verification t, Call_share_key x]"
    by (intro impI, elim conjE, rule on_start_share_raises [THEN conjunct1]; assumption)
  from c1 c2 c3 c4 c5 show ?thesis
    unfolding run by (intro conjI)
qed

theorem start_reply_witness:
  "calls (trace_of (to_device_callback (sas_client (Inr ''y'') False)
      (start_event [''decimal'', ''emoji'']) ((), []))) =
     [Call_accept_key_verification ''tx1'', Call_share_key the_sas, Call_to_device key_msg None]
   \<and> calls (trace_of (to_device_callback (sas_client (Inr ''y'') False)
      (start_event [''decimal'']) ((), []))) = []"
proof -
  have ty: "subscript (source (start_event [''decimal'', ''emoji''])) ''type'' =
      Inr (JStr ''m.key.verification.start'')"
    and ty': "subscript (source (start_event [''decimal''])) ''type'' =
      Inr (JStr ''m.key.verification.start'')"
    by (simp_all add: start_event_def event_of_def)
  have ne: "JStr ''m.key.verification.start'' \<noteq> JStr request_type"
    by (simp add: request_type_def)
  have k: "cls (start_event [''decimal'', ''emoji'']) =
      KeyVerificationStart ''tx1'' [''decimal'', ''emoji'']"
    and k': "cls (start_event [''decimal'']) = KeyVerificationStart ''tx1'' [''decimal'']"
    by (simp_all add: start_event_def event_of_def)
  have a: "accept_key_verification (sas_client (Inr ''y'') False) ''tx1'' () = (Inr ToDeviceResponse, ())"
    and l: "key_verifications (sas_client (Inr ''y'') False) () ''tx1'' = Some the_sas"
    and sh: "share_key (sas_client (Inr ''y'') False) the_sas () = (Inr key_msg, ())"
    by (simp_all add: sas_client_def)
  show ?thesis
    using start_reply [OF ty ne k, where client = "sas_client (Inr ''y'') False" and s = "()"
        and tr = "[]" and r = ToDeviceResponse and ?s1.0 = "()"
        and x = the_sas and m = key_msg and ?s2.0 = "()"]
      start_reply [OF ty' ne k', where client = "sas_client (Inr ''y'') False" and s = "()"
        and tr = "[]"]
      a l sh
    by (simp add: calls_def)
qed

text \<open>
  The claim as stated does not hold for every start event: for a transaction the
  library does not know, \<^verbatim>\<open>accept_key_verification\<close> raises, the handler prints the
  traceback, and no key share is sent although \<^verbatim>\<open>emoji\<close> is offered.
\<close>

theorem start_unknown_transaction:
  "''emoji'' \<in> set [''decimal'', ''emoji'']
   \<and> to_device_callback quiet_client (start_event [''decimal'', ''emoji'']) ((), []) =
       (Inr (), (), [Call_accept_key_verification ''tx1'',
                     Print (Traceback (LocalProtocolError ''unknown transaction''))])
   \<and> sent (trace_of (to_device_callback quiet_client (start_event [''decimal'', ''emoji'']) ((), []))) = []"
  by (simp add: callback_unfold handle_event_def on_start_def start_event_def event_of_def
      quiet_client_def request_type_def seq_def lift_def ret_def call_def sent_def trace_of_def)

section \<open>The operator's decision\<close>

text \<open>
  C3, as amended. For an event of the class \<^verbatim>\<open>KeyVerificationKey\<close> whose
  transaction is in the library's table under its id, once the emojis are shown and the
  operator's answer is read: on \<^verbatim>\<open>y\<close> or \<^verbatim>\<open>Y\<close> the handler calls
  \<^verbatim>\<open>confirm_short_auth_string\<close> once and, if that call returns, then sends exactly
  one \<^verbatim>\<open>m.key.verification.done\<close> with the same transaction id; if the call
  raises, no done message is sent. On \<^verbatim>\<open>n\<close> or \<^verbatim>\<open>N\<close> it calls
  \<^verbatim>\<open>cancel_key_verification\<close> once with \<^verbatim>\<open>reject=True\<close> and sends no done
  message. On any other answer it calls it once with \<^verbatim>\<open>reject=False\<close>.
\<close>

theorem key_decision:
  assumes "subscript (source ev) ''type'' = Inr ty" and "ty \<noteq> JStr request_type"
    and "cls ev = KeyVerificationKey t"
    and "key_verifications client s t = Some x"
    and "sas_transaction_id x = t"
    and "get_emoji client x s = (Inr em, s1)"
    and "input client s1 = (Inr yn, s2)"
  shows "(lower_is yn CHR ''y'' CHR ''Y'' \<and> confirm_short_auth_string client t s2 = (Inr r, s3)
          \<longrightarrow> calls (trace_of (to_device_callback client ev (s, tr))) =
                calls tr @ [Call_get_emoji x, Call_input, Call_confirm_short_auth_string t,
                  Call_to_device
                    \<lparr>msg_type = ''m.key.verification.done'', recipient = sender ev,
                     recipient_device = JStr (other_olm_device_id x),
                     content = JObj [(''transaction_id'', JStr t)]\<rparr>
                    (Some (JStr t))])
       \<and> (lower_is yn CHR ''y'' CHR ''Y'' \<and> confirm_short_auth_string client t s2 = (Inl e, s3)
          \<longrightarrow> calls (trace_of (to_device_callback client ev (s, tr))) =
                calls tr @ [Call_get_emoji x, Call_input, Call_confirm_short_auth_string t])
       \<and> (\<not> lower_is yn CHR ''y'' CHR ''Y'' \<and> lower_is yn CHR ''n'' CHR ''N''
          \<longrightarrow> calls (trace_of (to_device_callback client ev (s, tr))) =
                calls tr @ [Call_get_emoji x, Call_input, Call_cancel_key_verification t True])
       \<and> (\<not> lower_is yn CHR ''y'' CHR ''Y'' \<and> \<not> lower_is yn CHR ''n'' CHR ''N''
          \<longrightarrow> calls (trace_of (to_device_callback client ev (s, tr))) =
                calls tr @ [Call_get_emoji x, Call_input, Call_cancel_key_verification t False])"
proof -
  note prompt = assms(4) assms(6) assms(7)
  have run: "calls (trace_of (to_device_callback client ev (s, tr))) =
      calls (trace_of (on_key client ev t (s, tr)))"
    by (simp only: callback_calls key_event_run [OF assms(1-3)])
  have msg: "done_message ev x =
      \<lparr>msg_type = ''m.key.verification.done'', recipient = sender ev,
       recipient_device = JStr (other_olm_device_id x),
       content = JObj [(''transaction_id'', JStr t)]\<rparr>"
    by (simp add: done_message_def done_type_def assms(5))
  have c1: "lower_is yn CHR ''y'' CHR ''Y'' \<and> confirm_short_auth_string client t s2 = (Inr r, s3)
          \<longrightarrow> calls (trace_of (on_key client ev t (s, tr))) =
                calls tr @ [Call_get_emoji x, Call_input, Call_confirm_short_auth_string t,
                  Call_to_device
                    \<lparr>msg_type = ''m.key.verification.done'', recipient = sender ev,
                     recipient_device = JStr (other_olm_device_id x),
                     content = JObj [(''transaction_id'', JStr t)]\<rparr>
                    (Some (JStr t))]"
    using on_key_yes [OF prompt, of r s3 ev tr] by (simp add: msg assms(5))
  have c2: "lower_is yn CHR ''y'' CHR ''Y'' \<and> confirm_short_auth_string client t s2 = (Inl e, s3)
          \<longrightarrow> calls (trace_of (on_key client ev t (s, tr))) =
                calls tr @ [Call_get_emoji x, Call_input, Call_confirm_short_auth_string t]"
    using on_key_yes_raises [OF prompt, of e s3 ev tr] by (simp add: trace_of_def calls_def)
  have c3: "\<not> lower_is yn CHR ''y'' CHR ''Y'' \<and> lower_is yn CHR ''n'' CHR ''N''
          \<longrightarrow> calls (trace_of (on_key client ev t (s, tr))) =
                calls tr @ [Call_get_emoji x, Call_input, Call_cancel_key_verification t True]"
    using on_key_no [OF prompt, of ev tr] by simp
  have c4: "\<not> lower_is yn CHR ''y'' CHR ''Y'' \<and> \<not> lower_is yn CHR ''n'' CHR ''N''
          \<longrightarrow> calls (trace_of (on_key client ev t (s, tr))) =
                calls tr @ [Call_get_emoji x, Call_input, Call_cancel_key_verification t False]"
    using on_key_no [OF prompt, of ev tr] by simp
  from c1 c2 c3 c4 show ?thesis
    unfolding run by (intro conjI)
qed

theorem key_decision_witness:
  "sent (trace_of (to_device_callback (sas_client (Inr ''Y'') False) key_event ((), []))) =
     [(\<lparr>msg_type = ''m.key.verification.done'', recipient = ''@alice:example.org'',
        recipient_device = JStr ''PHONE'',
        content = JObj [(''transaction_id'', JStr ''tx1'')]\<rparr>, Some (JStr ''tx1''))]
   \<and> calls (trace_of (to_device_callback (sas_client (Inr ''n'') False) key_event ((), []))) =
     [Call_get_emoji the_sas, Call_input, Call_cancel_key_verification ''tx1'' True]
   \<and> calls (trace_of (to_device_callback (sas_client (Inr ''maybe'') False) key_event ((), []))) =
     [Call_get_emoji the_sas, Call_input, Call_cancel_key_verification ''tx1'' False]"
proof -
  have y: "calls (trace_of (to_device_callback (sas_client (Inr ''Y'') False) key_event ((), []))) =
     calls [] @ [Call_get_emoji the_sas, Call_input, Call_confirm_short_auth_string ''tx1'',
       Call_to_device
         \<lparr>msg_type = ''m.key.verification.done'', recipient = sender key_event,
          recipient_device = JStr (other_olm_device_id the_sas),
          content = JObj [(''transaction_id'', JStr ''tx1'')]\<rparr> (Some (JStr ''tx1''))]"
    using key_decision [OF key_event_facts(1-3) sas_client_facts(1) [of "Inr ''Y''" False]
        sas_client_facts(6) sas_client_facts(2) [of "Inr ''Y''" False]
        sas_client_facts(3) [of "Inr ''Y''" False],
        where r = ToDeviceResponse and ?s3.0 = "()" and tr = "[]"]
    by (simp add: lower_is_def sas_client_facts)
  have n: "calls (trace_of (to_device_callback (sas_client (Inr ''n'') False) key_event ((), []))) =
     calls [] @ [Call_get_emoji the_sas, Call_input, Call_cancel_key_verification ''tx1'' True]"
    using key_decision [OF key_event_facts(1-3) sas_client_facts(1) [of "Inr ''n''" False]
        sas_client_facts(6) sas_client_facts(2) [of "Inr ''n''" False]
        sas_client_facts(3) [of "Inr ''n''" False], where tr = "[]"]
    by (simp add: lower_is_def)
  have c: "calls (trace_of (to_device_callback (sas_client (Inr ''maybe'') False) key_event ((), []))) =
     calls [] @ [Call_get_emoji the_sas, Call_input, Call_cancel_key_verification ''tx1'' False]"
    using key_decision [OF key_event_facts(1-3) sas_client_facts(1) [of "Inr ''maybe''" False]
        sas_client_facts(6) sas_client_facts(2) [of "Inr ''maybe''" False]
        sas_client_facts(3) [of "Inr ''maybe''" False], where tr = "[]"]
    by (simp add: lower_is_def)
  have "sent (trace_of (to_device_callback (sas_client (Inr ''Y'') False) key_event ((), []))) =
      sent (calls (trace_of (to_device_callback (sas_client (Inr ''Y'') False) key_event ((), []))))"
    by (simp only: sent_calls)
  with y n c show ?thesis
    by (simp add: sent_def calls_def key_event_facts sas_client_facts)
qed

text \<open>
  The claim as stated does not hold for every affirmative answer: when the library
  refuses the confirmation (the transaction has expired or was cancelled meanwhile),
  the confirm call raises and the done message is never sent.
\<close>

theorem confirm_raises_no_done:
  "lower_is ''y'' CHR ''y'' CHR ''Y''
   \<and> to_device_callback (sas_client (Inr ''y'') True) key_event ((), []) =
       (Inr (), (), [Call_get_emoji the_sas, Print (Emoji [(''dog'', ''Dog''), (''cat'', ''Cat'')]),
                     Call_input, Print Match, Call_confirm_short_auth_string ''tx1'',
                     Print (Traceback (LocalProtocolError ''canceled''))])
   \<and> sent (trace_of (to_device_callback (sas_client (Inr ''y'') True) key_event ((), []))) = []"
proof -
  have "handle_event (sas_client (Inr ''y'') True) key_event ((), []) =
       (Inl (LocalProtocolError ''canceled''), (),
        [] @ [Call_get_emoji the_sas, Print (Emoji [(''dog'', ''Dog''), (''cat'', ''Cat'')]),
                     Call_input, Print Match, Call_confirm_short_auth_string ''tx1''])"
    unfolding key_event_run [OF key_event_facts(1-3)]
    using on_key_yes_raises [OF sas_client_facts(1) [of "Inr ''y''" True]
        sas_client_facts(2) [of "Inr ''y''" True] sas_client_facts(3) [of "Inr ''y''" True],
        where e = "LocalProtocolError ''canceled''" and ?s3.0 = "()" and tr = "[]" and ev = key_event]
    by (simp add: sas_client_facts lower_is_def)
  then show ?thesis
    by (simp add: callback_unfold lower_is_def sent_def trace_of_def)
qed

section \<open>The mac of the other device\<close>

text \<open>
  C5, as amended. For an event of the class \<^verbatim>\<open>KeyVerificationMac\<close> whose
  transaction is in the library's table: if \<^verbatim>\<open>get_mac\<close> raises
  \<^verbatim>\<open>LocalProtocolError\<close>, the handler prints the error and sends nothing; if
  \<^verbatim>\<open>get_mac\<close> returns a message, the handler sends exactly that message; if
  \<^verbatim>\<open>get_mac\<close> raises anything else, the traceback is printed and nothing is sent.
\<close>

theorem mac_reply:
  assumes "subscript (source ev) ''type'' = Inr ty" and "ty \<noteq> JStr request_type"
    and "cls ev = KeyVerificationMac t"
    and "key_verifications client s t = Some x"
  shows "(get_mac client x s = (Inl (LocalProtocolError r), s1)
          \<longrightarrow> to_device_callback client ev (s, tr) =
                (Inr (), s1, tr @ [Call_get_mac x, Print (ProtocolError r (sender ev))]))
       \<and> (get_mac client x s = (Inl (LocalProtocolError r), s1)
          \<longrightarrow> sent (trace_of (to_device_callback client ev (s, tr))) = sent tr)
       \<and> (get_mac client x s = (Inr m, s1)
          \<longrightarrow> sent (trace_of (to_device_callback client ev (s, tr))) = sent tr @ [(m, None)])
       \<and> (get_mac client x s = (Inl e, s1) \<and> \<not> is_LocalProtocolError e
          \<longrightarrow> to_device_callback client ev (s, tr) =
                (Inr (), s1, tr @ [Call_get_mac x, Print (Traceback e)]))"
proof -
  note run = mac_event_run [OF assms(1-3)]
  have c1: "get_mac client x s = (Inl (LocalProtocolError r), s1)
          \<longrightarrow> to_device_callback client ev (s, tr) =
                (Inr (), s1, tr @ [Call_get_mac x, Print (ProtocolError r (sender ev))])"
    by (simp add: callback_unfold run on_mac_protocol_error [OF assms(4)])
  have c2: "get_mac client x s = (Inl (LocalProtocolError r), s1)
          \<longrightarrow> sent (trace_of (to_device_callback client ev (s, tr))) = sent tr"
    using c1 by (simp add: trace_of_def sent_def)
  have c3: "get_mac client x s = (Inr m, s1)
          \<longrightarrow> sent (trace_of (to_device_callback client ev (s, tr))) = sent tr @ [(m, None)]"
  proof
    assume g: "get_mac client x s = (Inr m, s1)"
    have "sent (trace_of (to_device_callback client ev (s, tr))) =
        sent (calls (trace_of (to_device_callback client ev (s, tr))))"
      by (simp only: sent_calls)
    also have "\<dots> = sent (calls tr @ [Call_get_mac x, Call_to_device m None])"
      by (simp only: callback_calls run on_mac_sends [OF assms(4) g])
    also have "\<dots> = sent tr @ [(m, None)]"
      by (simp add: sent_append sent_calls) (simp add: sent_def)
    finally show "sent (trace_of (to_device_callback client ev (s, tr))) = sent tr @ [(m, None)]" .
  qed
  have c4: "get_mac client x s = (Inl e, s1) \<and> \<not> is_LocalProtocolError e
          \<longrightarrow> to_device_callback client ev (s, tr) =
                (Inr (), s1, tr @ [Call_get_mac x, Print (Traceback e)])"
    by (simp add: callback_unfold run on_mac_other_error [OF assms(4)])
  from c1 c2 c3 c4 show ?thesis by (intro conjI)
qed

theorem mac_reply_witness:
  "sent (trace_of (to_device_callback (sas_client (Inr ''y'') False) mac_event ((), []))) =
     [(mac_msg, None)]
   \<and> to_device_callback (sas_client (Inr ''y'') True) mac_event ((), []) =
     (Inr (), (), [Call_get_mac the_sas, Print (ProtocolError ''canceled'' ''@alice:example.org'')])"
proof -
  have live: "get_mac (sas_client (Inr ''y'') False) the_sas () = (Inr mac_msg, ())"
    and dead: "get_mac (sas_client (Inr ''y'') True) the_sas () =
      (Inl (LocalProtocolError ''canceled''), ())"
    by (simp_all add: sas_client_facts)
  show ?thesis
    using mac_reply [OF mac_event_facts(1-3) sas_client_facts(1) [of "Inr ''y''" False],
        where m = mac_msg and ?s1.0 = "()" and tr = "[]"]
      mac_reply [OF mac_event_facts(1-3) sas_client_facts(1) [of "Inr ''y''" True],
        where r = "''canceled''" and ?s1.0 = "()" and tr = "[]"]
      live dead
    by (simp add: sent_def mac_event_facts)
qed

text \<open>
  The claim as stated does not hold for every mac event: for a transaction that is not
  in the library's table the lookup raises \<^verbatim>\<open>KeyError\<close>; \<^verbatim>\<open>get_mac\<close> is not
  called and reports nothing, and no message is sent.
\<close>

theorem mac_unknown_transaction:
  "cls mac_event = KeyVerificationMac ''tx1''
   \<and> to_device_callback quiet_client mac_event ((), []) =
       (Inr (), (), [Print (Traceback KeyError)])
   \<and> sent (trace_of (to_device_callback quiet_client mac_event ((), []))) = []"
proof -
  have "key_verifications quiet_client () ''tx1'' = None"
    by (simp add: quiet_client_def)
  then have "handle_event quiet_client mac_event ((), []) = (Inl KeyError, (), [])"
    unfolding mac_event_run [OF mac_event_facts(1-3)] by (rule on_mac_unknown)
  then show ?thesis
    by (simp add: callback_unfold mac_event_facts sent_def trace_of_def)
qed

section \<open>An interrupt at the prompt\<close>




section \<open>The two ways to log in, path by path\<close>

lemma startswith_prefix: "startswith s p = prefix p s"
  by (induction s p rule: startswith.induct) auto

lemma add_scheme_prefix:
  "add_scheme typed =
     (if prefix ''https://'' typed \<or> prefix ''http://'' typed then typed else ''https://'' @ typed)"
  by (simp add: add_scheme_def startswith_prefix)

lemma login_stored:
  "config_file d = Some contents \<Longrightarrow> login env dn (d, tr) = stored_login env contents (d, tr)"
  by (simp add: login_def seq_def reads_def)

lemma login_first:
  "config_file d = None \<Longrightarrow> login env dn (d, tr) = first_login env dn (d, tr)"
  by (simp add: login_def seq_def reads_def)

lemma seq_emit: "seq (emit a) f (s, tr) = f () (s, tr @ [a])"
  by (simp add: seq_def emit_def)

lemma seq_lift: "seq (lift r) f w = (case r of Inl e \<Rightarrow> (Inl e, w) | Inr x \<Rightarrow> f x w)"
  by (simp add: seq_def lift_def raise_def ret_def split: sum.splits)

lemma restore_login_unfold:
  "restore_login env client uid dev token (d, tr) =
     ((if \<not> truthy uid then Inl (LocalProtocolError ''User id is not set'')
       else if \<not> truthy dev then Inl (LocalProtocolError ''Device id is not set'')
       else if \<not> store_exists d then Inl OperationalError
       else case open_store env (set_login client uid dev token) of
              Inl e \<Rightarrow> Inl e | Inr u \<Rightarrow> Inr (set_login client uid dev token)),
      d, tr @ [Call_restore_login uid dev token])"
  by (simp add: restore_login_def load_store_def set_login_def seq_def emit_def ret_def raise_def
      lift_def reads_def split: sum.splits)

lemma restore_login_outcome:
  "outcome (restore_login env client uid dev token (d, tr)) =
     (if \<not> truthy uid then Inl (LocalProtocolError ''User id is not set'')
      else if \<not> truthy dev then Inl (LocalProtocolError ''Device id is not set'')
      else if \<not> store_exists d then Inl OperationalError
      else case open_store env (set_login client uid dev token) of
             Inl e \<Rightarrow> Inl e | Inr u \<Rightarrow> Inr (set_login client uid dev token))"
  by (simp only: restore_login_unfold outcome_def fst_conv)

lemma after_restore:
  "seq (restore_login env client uid dev token) f (d, tr) =
     (case fst (restore_login env client uid dev token (d, tr)) of
        Inl e \<Rightarrow> (Inl e, d, tr @ [Call_restore_login uid dev token])
      | Inr c \<Rightarrow> f c (d, tr @ [Call_restore_login uid dev token]))"
  by (simp add: seq_def restore_login_unfold split: sum.splits)

lemma stored_login_frame:
  "state_of (stored_login env contents (d, tr)) = d
   \<and> writes (trace_of (stored_login env contents (d, tr))) = writes tr
   \<and> filter is_password_login (trace_of (stored_login env contents (d, tr))) =
       filter is_password_login tr"
proof -
  have tail: "state_of (seq (restore_login env c uid dev token)
        (\<lambda>client. seq (emit (LPrint LoggedInUsingStoredCredentials)) (\<lambda>_. ret client)) (d, tr')) = d
      \<and> writes (trace_of (seq (restore_login env c uid dev token)
        (\<lambda>client. seq (emit (LPrint LoggedInUsingStoredCredentials)) (\<lambda>_. ret client)) (d, tr'))) =
          writes tr'
      \<and> filter is_password_login (trace_of (seq (restore_login env c uid dev token)
        (\<lambda>client. seq (emit (LPrint LoggedInUsingStoredCredentials)) (\<lambda>_. ret client)) (d, tr'))) =
          filter is_password_login tr'" for c uid dev token tr'
    unfolding after_restore
    by (cases "fst (restore_login env c uid dev token (d, tr'))")
      (simp_all add: seq_def emit_def ret_def state_of_def trace_of_def writes_def)
  have shape: "stored_login env contents (d, tr) =
     (case json_loads env contents of Inl e \<Rightarrow> (Inl e, d, tr @ [Read_config])
      | Inr config \<Rightarrow>
     (case subscript config ''homeserver'' of Inl e \<Rightarrow> (Inl e, d, tr @ [Read_config])
      | Inr hs \<Rightarrow>
     (case subscript config ''user_id'' of Inl e \<Rightarrow> (Inl e, d, tr @ [Read_config])
      | Inr usr \<Rightarrow>
     (case subscript config ''device_id'' of Inl e \<Rightarrow> (Inl e, d, tr @ [Read_config])
      | Inr dev \<Rightarrow>
     (case subscript config ''access_token'' of
        Inl e \<Rightarrow> (Inl e, d, tr @ [Read_config, New_AsyncClient (AsyncClient hs usr dev)])
      | Inr token \<Rightarrow>
          seq (restore_login env (AsyncClient hs usr dev) usr dev token)
            (\<lambda>client. seq (emit (LPrint LoggedInUsingStoredCredentials)) (\<lambda>_. ret client))
            (d, tr @ [Read_config, New_AsyncClient (AsyncClient hs usr dev)]))))))"
    by (simp add: stored_login_def seq_emit seq_lift split: sum.splits)
  show ?thesis
    unfolding shape
    using tail
    by (simp add: state_of_def trace_of_def writes_def split: sum.splits)
qed

lemma stored_login_reads:
  assumes "json_loads env contents = Inr (credentials (LoginResponse u dv tok) hs name)"
  shows "stored_login env contents (d, tr) =
     seq (restore_login env (AsyncClient (JStr hs) (JStr u) (JStr dv)) (JStr u) (JStr dv) (JStr tok))
       (\<lambda>client. seq (emit (LPrint LoggedInUsingStoredCredentials)) (\<lambda>_. ret client))
       (d, tr @ [Read_config, New_AsyncClient (AsyncClient (JStr hs) (JStr u) (JStr dv))])"
  using assms
  by (simp add: stored_login_def seq_def lift_def ret_def emit_def credentials_def)

lemma stored_login_outcome:
  assumes "json_loads env contents = Inr (credentials (LoginResponse u dv tok) hs name)"
  shows "outcome (stored_login env contents (d, tr)) =
     (if u = [] then Inl (LocalProtocolError ''User id is not set'')
      else if dv = [] then Inl (LocalProtocolError ''Device id is not set'')
      else if \<not> store_exists d then Inl OperationalError
      else case open_store env
                  \<lparr>homeserver = JStr hs, user = JStr u, handle_user_id = JStr u,
                   handle_device_id = JStr dv, access_token = JStr tok\<rparr> of
             Inl e \<Rightarrow> Inl e
           | Inr x \<Rightarrow> Inr \<lparr>homeserver = JStr hs, user = JStr u, handle_user_id = JStr u,
                           handle_device_id = JStr dv, access_token = JStr tok\<rparr>)"
proof -
  let ?w = "(d, tr @ [Read_config, New_AsyncClient (AsyncClient (JStr hs) (JStr u) (JStr dv))])"
  let ?r = "restore_login env (AsyncClient (JStr hs) (JStr u) (JStr dv)) (JStr u) (JStr dv) (JStr tok) ?w"
  have h: "set_login (AsyncClient (JStr hs) (JStr u) (JStr dv)) (JStr u) (JStr dv) (JStr tok) =
      \<lparr>homeserver = JStr hs, user = JStr u, handle_user_id = JStr u,
       handle_device_id = JStr dv, access_token = JStr tok\<rparr>"
    by (simp add: set_login_def AsyncClient_def)
  have o: "outcome (stored_login env contents (d, tr)) = outcome ?r"
    by (cases ?r) (auto simp: stored_login_reads [OF assms] seq_def emit_def ret_def outcome_def
        split: sum.splits)
  show ?thesis
    unfolding o restore_login_outcome h by simp
qed

lemma stored_login_run:
  assumes "json_loads env contents = Inr (credentials (LoginResponse u dv tok) hs name)"
    and "u \<noteq> []" and "dv \<noteq> []" and "store_exists d"
    and "open_store env \<lparr>homeserver = JStr hs, user = JStr u, handle_user_id = JStr u,
           handle_device_id = JStr dv, access_token = JStr tok\<rparr> = Inr ()"
  shows "stored_login env contents (d, tr) =
     (Inr \<lparr>homeserver = JStr hs, user = JStr u, handle_user_id = JStr u,
           handle_device_id = JStr dv, access_token = JStr tok\<rparr>,
      d,
      tr @ [Read_config,
            New_AsyncClient (AsyncClient (JStr hs) (JStr u) (JStr dv)),
            Call_restore_login (JStr u) (JStr dv) (JStr tok),
            LPrint LoggedInUsingStoredCredentials])"
  using assms(2-5)
  by (simp add: stored_login_reads [OF assms(1)] restore_login_def load_store_def set_login_def
      AsyncClient_def seq_def lift_def ret_def emit_def reads_def)

lemma first_login_success:
  assumes "input_homeserver env = Inr typed" and "input_user_id env = Inr uid"
    and "getpass env = Inr pw"
    and "client_login env (AsyncClient (JStr (add_scheme typed)) (JStr uid) (JStr [])) pw dn =
           Inr (LoginResponse u dv tok)"
  shows "first_login env dn (d, tr) =
     (Inr \<lparr>homeserver = JStr (add_scheme typed), user = JStr uid, handle_user_id = JStr u,
           handle_device_id = JStr dv, access_token = JStr tok\<rparr>,
      (if store_exists d then d else d\<lparr>store_exists := True\<rparr>)
        \<lparr>config_file := Some (json_dump env (credentials (LoginResponse u dv tok) (add_scheme typed) dn))\<rparr>,
      tr @ [LPrint FirstTimeUse, Input_homeserver, Input_user_id] @
        (if store_exists d then [] else [Mkdir_store]) @
        [New_AsyncClient (AsyncClient (JStr (add_scheme typed)) (JStr uid) (JStr [])),
         Getpass,
         Call_login (AsyncClient (JStr (add_scheme typed)) (JStr uid) (JStr [])) pw dn,
         Write_config (credentials (LoginResponse u dv tok) (add_scheme typed) dn),
         LPrint LoggedInUsingPassword])"
  using assms
  by (simp add: first_login_def seq_def ret_def emit_def call_def reads_def mkdir_store_def
      write_details_to_disk_def write_file_def AsyncClient_def set_login_def)

lemma first_login_writes:
  "(outcome (first_login env dn (d, tr)) = Inr h \<longrightarrow>
      (\<exists>doc. writes (trace_of (first_login env dn (d, tr))) = writes tr @ [Write_config doc])
      \<and> config_file (state_of (first_login env dn (d, tr))) \<noteq> None)
   \<and> (outcome (first_login env dn (d, tr)) = Inl e \<longrightarrow>
      writes (trace_of (first_login env dn (d, tr))) = writes tr
      \<and> config_file (state_of (first_login env dn (d, tr))) = config_file d)"
  by (simp add: first_login_def seq_def ret_def raise_def emit_def call_def reads_def mkdir_store_def
      write_details_to_disk_def write_file_def outcome_def trace_of_def state_of_def writes_def
      split: sum.splits login_result.splits)

lemma first_login_calls_login:
  assumes "input_homeserver env = Inr typed" and "input_user_id env = Inr uid"
    and "getpass env = Inr pw"
  shows "filter is_password_login (trace_of (first_login env dn (d, tr))) =
     filter is_password_login tr @
       [Call_login (AsyncClient (JStr (add_scheme typed)) (JStr uid) (JStr [])) pw dn]"
  using assms
  by (simp add: first_login_def seq_def ret_def raise_def emit_def call_def reads_def mkdir_store_def
      write_details_to_disk_def write_file_def trace_of_def
      split: sum.splits login_result.splits)

lemma login_step:
  "(config_file d \<noteq> None \<longrightarrow>
      state_of (login env dn (d, tr)) = d \<and> writes (trace_of (login env dn (d, tr))) = writes tr)
   \<and> (config_file d = None \<longrightarrow>
      (writes (trace_of (login env dn (d, tr))) = writes tr
       \<and> config_file (state_of (login env dn (d, tr))) = None)
      \<or> (length (writes (trace_of (login env dn (d, tr)))) = length (writes tr) + 1
       \<and> config_file (state_of (login env dn (d, tr))) \<noteq> None))"
proof (cases "config_file d")
  case None
  show ?thesis
  proof (cases "outcome (first_login env dn (d, tr))")
    case (Inl e)
    with first_login_writes [of env dn d tr undefined e] None show ?thesis
      by (simp add: login_first)
  next
    case (Inr h)
    with first_login_writes [of env dn d tr h undefined] None show ?thesis
      by (auto simp: login_first)
  qed
next
  case (Some contents)
  with stored_login_frame [of env contents d tr] show ?thesis
    by (simp add: login_stored)
qed

lemma process_starts_writes:
  "(config_file d \<noteq> None \<longrightarrow>
      writes (snd (process_starts runs (d, tr))) = writes tr
      \<and> config_file (fst (process_starts runs (d, tr))) = config_file d)
   \<and> length (writes (snd (process_starts runs (d, tr)))) \<le> length (writes tr) + 1"
proof (induction runs arbitrary: d tr)
  case Nil
  show ?case by simp
next
  case (Cons run runs)
  obtain env dn where run: "run = (env, dn)" by (cases run)
  obtain r d' tr' where res: "login env dn (d, tr) = (r, d', tr')"
    by (cases "login env dn (d, tr)")
  have step: "process_starts (run # runs) (d, tr) = process_starts runs (d', tr')"
    by (simp add: run res)
  from login_step [of d env dn tr] res
  have one: "(config_file d \<noteq> None \<longrightarrow> d' = d \<and> writes tr' = writes tr)
     \<and> (config_file d = None \<longrightarrow>
          (writes tr' = writes tr \<and> config_file d' = None)
          \<or> (length (writes tr') = length (writes tr) + 1 \<and> config_file d' \<noteq> None))"
    by (simp add: state_of_def trace_of_def)
  show ?case
  proof (cases "config_file d")
    case (Some c)
    with one Cons.IH [of d' tr'] show ?thesis by (simp add: step)
  next
    case None
    with one Cons.IH [of d' tr'] show ?thesis by (auto simp: step)
  qed
qed

lemma plain_env_facts:
  "input_homeserver plain_env = Inr ''matrix.example.org''"
  "input_user_id plain_env = Inr ''@bot:example.org''"
  "getpass plain_env = Inr ''secret''"
  "client_login plain_env c pw name = Inr (LoginResponse ''@bot:example.org'' ''BOTDEVICE'' ''TOKEN'')"
  "json_dump plain_env doc = doc"
  "json_loads plain_env doc = Inr doc"
  "open_store plain_env c = Inr ()"
  by (simp_all add: plain_env_def)

section \<open>The credential file\<close>

text \<open>
  C7, as amended. Take the credentials that \<^verbatim>\<open>write_details_to_disk\<close> writes after
  a successful password login: the response's user id, device id and access token, the
  homeserver and the device name, and let the JSON codec read back the document it
  wrote. A later \<^verbatim>\<open>login\<close> on that disk, with any operator and any server, reads the
  file, builds the client and calls \<^verbatim>\<open>restore_login\<close>; it makes no password login.
  When the user id and the device id are not empty, the store directory is there and
  the library opens the store, it returns a handle whose homeserver, user id, device id
  and access token are exactly the written values. When an id is empty, the store
  directory is missing or the store cannot be opened, \<^verbatim>\<open>restore_login\<close> raises and
  no handle is returned.
\<close>

theorem credential_round_trip:
  assumes "json_loads env' (json_dump env (credentials (LoginResponse u dv tok) hs dn)) =
             Inr (credentials (LoginResponse u dv tok) hs dn)"
  shows "(u \<noteq> [] \<and> dv \<noteq> [] \<and> store_exists d \<and>
          open_store env' \<lparr>homeserver = JStr hs, user = JStr u, handle_user_id = JStr u,
                           handle_device_id = JStr dv, access_token = JStr tok\<rparr> = Inr ()
          \<longrightarrow> login env' dn'
                (state_of (write_details_to_disk env (LoginResponse u dv tok) hs dn (d, tr)), tr') =
              (Inr \<lparr>homeserver = JStr hs, user = JStr u, handle_user_id = JStr u,
                    handle_device_id = JStr dv, access_token = JStr tok\<rparr>,
               state_of (write_details_to_disk env (LoginResponse u dv tok) hs dn (d, tr)),
               tr' @ [Read_config,
                      New_AsyncClient (AsyncClient (JStr hs) (JStr u) (JStr dv)),
                      Call_restore_login (JStr u) (JStr dv) (JStr tok),
                      LPrint LoggedInUsingStoredCredentials]))
       \<and> filter is_password_login
           (trace_of (login env' dn'
              (state_of (write_details_to_disk env (LoginResponse u dv tok) hs dn (d, tr)), tr'))) =
           filter is_password_login tr'
       \<and> (u = [] \<longrightarrow>
           outcome (login env' dn'
              (state_of (write_details_to_disk env (LoginResponse u dv tok) hs dn (d, tr)), tr')) =
             Inl (LocalProtocolError ''User id is not set''))
       \<and> (u \<noteq> [] \<and> dv = [] \<longrightarrow>
           outcome (login env' dn'
              (state_of (write_details_to_disk env (LoginResponse u dv tok) hs dn (d, tr)), tr')) =
             Inl (LocalProtocolError ''Device id is not set''))
       \<and> (u \<noteq> [] \<and> dv \<noteq> [] \<and> \<not> store_exists d \<longrightarrow>
           outcome (login env' dn'
              (state_of (write_details_to_disk env (LoginResponse u dv tok) hs dn (d, tr)), tr')) =
             Inl OperationalError)
       \<and> (u \<noteq> [] \<and> dv \<noteq> [] \<and> store_exists d \<and>
          open_store env' \<lparr>homeserver = JStr hs, user = JStr u, handle_user_id = JStr u,
                           handle_device_id = JStr dv, access_token = JStr tok\<rparr> = Inl e
          \<longrightarrow> outcome (login env' dn'
              (state_of (write_details_to_disk env (LoginResponse u dv tok) hs dn (d, tr)), tr')) =
             Inl e)"
proof -
  let ?D = "state_of (write_details_to_disk env (LoginResponse u dv tok) hs dn (d, tr))"
  have w: "config_file ?D = Some (json_dump env (credentials (LoginResponse u dv tok) hs dn))"
    by (simp add: write_details_to_disk_def write_file_def call_def state_of_def)
  have st: "store_exists ?D = store_exists d"
    by (simp add: write_details_to_disk_def write_file_def call_def state_of_def)
  note run = login_stored [OF w]
  have a: "u \<noteq> [] \<and> dv \<noteq> [] \<and> store_exists d \<and>
          open_store env' \<lparr>homeserver = JStr hs, user = JStr u, handle_user_id = JStr u,
                           handle_device_id = JStr dv, access_token = JStr tok\<rparr> = Inr ()
          \<longrightarrow> login env' dn' (?D, tr') =
              (Inr \<lparr>homeserver = JStr hs, user = JStr u, handle_user_id = JStr u,
                    handle_device_id = JStr dv, access_token = JStr tok\<rparr>,
               ?D,
               tr' @ [Read_config,
                      New_AsyncClient (AsyncClient (JStr hs) (JStr u) (JStr dv)),
                      Call_restore_login (JStr u) (JStr dv) (JStr tok),
                      LPrint LoggedInUsingStoredCredentials])"
    using stored_login_run [OF assms, of ?D tr'] by (simp add: run st)
  have b: "filter is_password_login (trace_of (login env' dn' (?D, tr'))) =
           filter is_password_login tr'"
    using stored_login_frame [of env' _ ?D tr'] by (simp add: run)
  have o: "outcome (login env' dn' (?D, tr')) =
     (if u = [] then Inl (LocalProtocolError ''User id is not set'')
      else if dv = [] then Inl (LocalProtocolError ''Device id is not set'')
      else if \<not> store_exists d then Inl OperationalError
      else case open_store env'
                  \<lparr>homeserver = JStr hs, user = JStr u, handle_user_id = JStr u,
                   handle_device_id = JStr dv, access_token = JStr tok\<rparr> of
             Inl e \<Rightarrow> Inl e
           | Inr x \<Rightarrow> Inr \<lparr>homeserver = JStr hs, user = JStr u, handle_user_id = JStr u,
                           handle_device_id = JStr dv, access_token = JStr tok\<rparr>)"
    by (simp add: run stored_login_outcome [OF assms] st)
  have c1: "u = [] \<longrightarrow> outcome (login env' dn' (?D, tr')) =
             Inl (LocalProtocolError ''User id is not set'')"
    unfolding o by simp
  have c2: "u \<noteq> [] \<and> dv = [] \<longrightarrow> outcome (login env' dn' (?D, tr')) =
             Inl (LocalProtocolError ''Device id is not set'')"
    unfolding o by simp
  have c3: "u \<noteq> [] \<and> dv \<noteq> [] \<and> \<not> store_exists d \<longrightarrow>
           outcome (login env' dn' (?D, tr')) = Inl OperationalError"
    unfolding o by simp
  have c4: "u \<noteq> [] \<and> dv \<noteq> [] \<and> store_exists d \<and>
          open_store env' \<lparr>homeserver = JStr hs, user = JStr u, handle_user_id = JStr u,
                           handle_device_id = JStr dv, access_token = JStr tok\<rparr> = Inl e
          \<longrightarrow> outcome (login env' dn' (?D, tr')) = Inl e"
    unfolding o by simp
  from a b c1 c2 c3 c4 show ?thesis by (intro conjI)
qed

theorem credential_round_trip_witness:
  "outcome (login plain_env ''bot2''
      (state_of (write_details_to_disk plain_env
         (LoginResponse ''@bot:example.org'' ''BOTDEVICE'' ''TOKEN'')
         ''https://matrix.example.org'' ''bot1'' (store_disk, [])), [])) =
     Inr \<lparr>homeserver = JStr ''https://matrix.example.org'', user = JStr ''@bot:example.org'',
          handle_user_id = JStr ''@bot:example.org'', handle_device_id = JStr ''BOTDEVICE'',
          access_token = JStr ''TOKEN''\<rparr>"
  using credential_round_trip [of plain_env plain_env "''@bot:example.org''" "''BOTDEVICE''"
      "''TOKEN''" "''https://matrix.example.org''" "''bot1''" store_disk "''bot2''" "[]" "[]"]
  by (simp add: plain_env_facts outcome_def store_disk_def)

text \<open>
  The claim as stated does not hold for every written record: the first start logs in
  with the password and writes the record; when the store directory is then no longer
  there, as in a bot directory of which only the credential file was kept, the next
  start reads the record and \<^verbatim>\<open>restore_login\<close> raises, so no handle is rebuilt.
\<close>

theorem restore_without_store:
  "config_file (state_of (login plain_env ''bot1'' (fresh_disk, []))) =
     Some (credentials (LoginResponse ''@bot:example.org'' ''BOTDEVICE'' ''TOKEN'')
             ''https://matrix.example.org'' ''bot1'')
   \<and> outcome (login plain_env ''bot1''
        ((state_of (login plain_env ''bot1'' (fresh_disk, [])))\<lparr>store_exists := False\<rparr>, [])) =
     Inl OperationalError"
proof -
  let ?doc = "credentials (LoginResponse ''@bot:example.org'' ''BOTDEVICE'' ''TOKEN'')
             ''https://matrix.example.org'' ''bot1''"
  have n: "add_scheme ''matrix.example.org'' = ''https://matrix.example.org''"
    by (simp add: add_scheme_def)
  have none: "config_file fresh_disk = None"
    by (simp add: fresh_disk_def)
  have run: "first_login plain_env ''bot1'' (fresh_disk, []) =
     (Inr \<lparr>homeserver = JStr (add_scheme ''matrix.example.org''),
           user = JStr ''@bot:example.org'', handle_user_id = JStr ''@bot:example.org'',
           handle_device_id = JStr ''BOTDEVICE'', access_token = JStr ''TOKEN''\<rparr>,
      (if store_exists fresh_disk then fresh_disk else fresh_disk\<lparr>store_exists := True\<rparr>)
        \<lparr>config_file := Some (json_dump plain_env
           (credentials (LoginResponse ''@bot:example.org'' ''BOTDEVICE'' ''TOKEN'')
              (add_scheme ''matrix.example.org'') ''bot1''))\<rparr>,
      [] @ [LPrint FirstTimeUse, Input_homeserver, Input_user_id] @
        (if store_exists fresh_disk then [] else [Mkdir_store]) @
        [New_AsyncClient (AsyncClient (JStr (add_scheme ''matrix.example.org''))
           (JStr ''@bot:example.org'') (JStr [])),
         Getpass,
         Call_login (AsyncClient (JStr (add_scheme ''matrix.example.org''))
           (JStr ''@bot:example.org'') (JStr [])) ''secret'' ''bot1'',
         Write_config (credentials (LoginResponse ''@bot:example.org'' ''BOTDEVICE'' ''TOKEN'')
              (add_scheme ''matrix.example.org'') ''bot1''),
         LPrint LoggedInUsingPassword])"
    by (rule first_login_success) (rule plain_env_facts)+
  have first: "state_of (login plain_env ''bot1'' (fresh_disk, [])) =
      \<lparr>config_file = Some ?doc, store_exists = True\<rparr>"
    unfolding login_first [OF none] run
    by (simp add: state_of_def plain_env_facts n fresh_disk_def)
  have later: "outcome (login plain_env ''bot1''
      (\<lparr>config_file = Some ?doc, store_exists = False\<rparr>, [])) = Inl OperationalError"
    using stored_login_outcome [of plain_env ?doc "''@bot:example.org''" "''BOTDEVICE''"
        "''TOKEN''" "''https://matrix.example.org''" "''bot1''"
        "\<lparr>config_file = Some ?doc, store_exists = False\<rparr>" "[]"]
    by (simp add: login_stored plain_env_facts)
  show ?thesis by (simp add: first later)
qed

text \<open>
  C8. A start that finds the credential file leaves the disk as it is and writes
  nothing. A start that finds none and logs in with the password writes the file once,
  right after the login call returns, and prints that it is logged in; a start that
  finds none and fails writes nothing and leaves no file. So however often the
  program is started on a directory, with whatever operators and servers, it writes the
  file at most once, and never when the file was already there.
\<close>

theorem credential_file_written_once:
  "(config_file d = Some contents \<longrightarrow>
      state_of (login env dn (d, tr)) = d \<and> writes (trace_of (login env dn (d, tr))) = writes tr)
   \<and> (config_file d = None \<and> input_homeserver env = Inr typed \<and> input_user_id env = Inr uid \<and>
      getpass env = Inr pw \<and>
      client_login env (AsyncClient (JStr (add_scheme typed)) (JStr uid) (JStr [])) pw dn =
        Inr (LoginResponse u dv tok)
      \<longrightarrow> trace_of (login env dn (d, tr)) =
            tr @ [LPrint FirstTimeUse, Input_homeserver, Input_user_id] @
              (if store_exists d then [] else [Mkdir_store]) @
              [New_AsyncClient (AsyncClient (JStr (add_scheme typed)) (JStr uid) (JStr [])),
               Getpass,
               Call_login (AsyncClient (JStr (add_scheme typed)) (JStr uid) (JStr [])) pw dn,
               Write_config (credentials (LoginResponse u dv tok) (add_scheme typed) dn),
               LPrint LoggedInUsingPassword]
          \<and> config_file (state_of (login env dn (d, tr))) =
              Some (json_dump env (credentials (LoginResponse u dv tok) (add_scheme typed) dn)))
   \<and> (config_file d = None \<and> outcome (login env dn (d, tr)) = Inl e
      \<longrightarrow> writes (trace_of (login env dn (d, tr))) = writes tr
          \<and> config_file (state_of (login env dn (d, tr))) = None)
   \<and> length (writes (snd (process_starts runs (d, tr)))) \<le> length (writes tr) + 1
   \<and> (config_file d \<noteq> None \<longrightarrow>
      writes (snd (process_starts runs (d, tr))) = writes tr
      \<and> config_file (fst (process_starts runs (d, tr))) = config_file d)"
proof -
  have a: "config_file d = Some contents \<longrightarrow>
      state_of (login env dn (d, tr)) = d \<and> writes (trace_of (login env dn (d, tr))) = writes tr"
    using login_step [of d env dn tr] by simp
  have b: "config_file d = None \<and> input_homeserver env = Inr typed \<and> input_user_id env = Inr uid \<and>
      getpass env = Inr pw \<and>
      client_login env (AsyncClient (JStr (add_scheme typed)) (JStr uid) (JStr [])) pw dn =
        Inr (LoginResponse u dv tok)
      \<longrightarrow> trace_of (login env dn (d, tr)) =
            tr @ [LPrint FirstTimeUse, Input_homeserver, Input_user_id] @
              (if store_exists d then [] else [Mkdir_store]) @
              [New_AsyncClient (AsyncClient (JStr (add_scheme typed)) (JStr uid) (JStr [])),
               Getpass,
               Call_login (AsyncClient (JStr (add_scheme typed)) (JStr uid) (JStr [])) pw dn,
               Write_config (credentials (LoginResponse u dv tok) (add_scheme typed) dn),
               LPrint LoggedInUsingPassword]
          \<and> config_file (state_of (login env dn (d, tr))) =
              Some (json_dump env (credentials (LoginResponse u dv tok) (add_scheme typed) dn))"
  proof (intro impI, elim conjE)
    assume none: "config_file d = None"
      and h: "input_homeserver env = Inr typed" "input_user_id env = Inr uid" "getpass env = Inr pw"
        "client_login env (AsyncClient (JStr (add_scheme typed)) (JStr uid) (JStr [])) pw dn =
          Inr (LoginResponse u dv tok)"
    show "trace_of (login env dn (d, tr)) =
            tr @ [LPrint FirstTimeUse, Input_homeserver, Input_user_id] @
              (if store_exists d then [] else [Mkdir_store]) @
              [New_AsyncClient (AsyncClient (JStr (add_scheme typed)) (JStr uid) (JStr [])),
               Getpass,
               Call_login (AsyncClient (JStr (add_scheme typed)) (JStr uid) (JStr [])) pw dn,
               Write_config (credentials (LoginResponse u dv tok) (add_scheme typed) dn),
               LPrint LoggedInUsingPassword]
          \<and> config_file (state_of (login env dn (d, tr))) =
              Some (json_dump env (credentials (LoginResponse u dv tok) (add_scheme typed) dn))"
      by (simp add: login_first [OF none] first_login_success [OF h] trace_of_def state_of_def)
  qed
  have c: "config_file d = None \<and> outcome (login env dn (d, tr)) = Inl e
      \<longrightarrow> writes (trace_of (login env dn (d, tr))) = writes tr
          \<and> config_file (state_of (login env dn (d, tr))) = None"
    using first_login_writes [of env dn d tr undefined e] by (auto simp: login_first)
  from a b c process_starts_writes [of d runs tr] show ?thesis by (intro conjI) simp_all
qed

theorem credential_file_written_once_witness:
  "writes (trace_of (login plain_env ''bot1'' (fresh_disk, []))) =
     [Write_config (credentials (LoginResponse ''@bot:example.org'' ''BOTDEVICE'' ''TOKEN'')
        ''https://matrix.example.org'' ''bot1'')]
   \<and> writes (trace_of (login plain_env ''bot1''
        (state_of (login plain_env ''bot1'' (fresh_disk, [])), []))) = []"
proof -
  let ?doc = "credentials (LoginResponse ''@bot:example.org'' ''BOTDEVICE'' ''TOKEN'')
        ''https://matrix.example.org'' ''bot1''"
  have n: "add_scheme ''matrix.example.org'' = ''https://matrix.example.org''"
    by (simp add: add_scheme_def)
  have first: "trace_of (login plain_env ''bot1'' (fresh_disk, [])) =
      [LPrint FirstTimeUse, Input_homeserver, Input_user_id, Mkdir_store,
       New_AsyncClient (AsyncClient (JStr ''https://matrix.example.org'')
         (JStr ''@bot:example.org'') (JStr [])),
       Getpass,
       Call_login (AsyncClient (JStr ''https://matrix.example.org'')
         (JStr ''@bot:example.org'') (JStr [])) ''secret'' ''bot1'',
       Write_config ?doc, LPrint LoggedInUsingPassword]"
    and stored: "config_file (state_of (login plain_env ''bot1'' (fresh_disk, []))) = Some ?doc"
    using credential_file_written_once [of fresh_disk _ plain_env "''bot1''" "[]"
        "''matrix.example.org''" "''@bot:example.org''" "''secret''"
        "''@bot:example.org''" "''BOTDEVICE''" "''TOKEN''"]
    by (simp_all add: plain_env_facts fresh_disk_def n)
  have second: "writes (trace_of (login plain_env ''bot1''
        (state_of (login plain_env ''bot1'' (fresh_disk, [])), []))) = writes []"
    using credential_file_written_once [of "state_of (login plain_env ''bot1'' (fresh_disk, []))"
        ?doc plain_env "''bot1''" "[]"] stored
    by simp
  show ?thesis using first second by (simp add: writes_def)
qed

text \<open>
  C9. On a first login, with the homeserver \<open>typed\<close> at the prompt, the client that
  logs in is built with \<open>typed\<close> itself when it starts with \<^verbatim>\<open>https://\<close> or
  \<^verbatim>\<open>http://\<close>, and with \<^verbatim>\<open>https://\<close> put before it otherwise. When the login
  succeeds, the handle returned and the credentials written carry the same value.
\<close>

theorem homeserver_scheme:
  assumes "config_file d = None" and "input_homeserver env = Inr typed"
    and "input_user_id env = Inr uid" and "getpass env = Inr pw"
  shows "filter is_password_login (trace_of (login env dn (d, tr))) =
           filter is_password_login tr @
           [Call_login
              (AsyncClient
                 (JStr (if prefix ''https://'' typed \<or> prefix ''http://'' typed then typed
                        else ''https://'' @ typed))
                 (JStr uid) (JStr [])) pw dn]
       \<and> (client_login env (AsyncClient (JStr (add_scheme typed)) (JStr uid) (JStr [])) pw dn =
            Inr (LoginResponse u dv tok)
          \<longrightarrow> outcome (login env dn (d, tr)) =
                Inr \<lparr>homeserver =
                       JStr (if prefix ''https://'' typed \<or> prefix ''http://'' typed then typed
                             else ''https://'' @ typed),
                     user = JStr uid, handle_user_id = JStr u, handle_device_id = JStr dv,
                     access_token = JStr tok\<rparr>
              \<and> writes (trace_of (login env dn (d, tr))) = writes tr @
                [Write_config
                  (JObj [(''homeserver'',
                            JStr (if prefix ''https://'' typed \<or> prefix ''http://'' typed then typed
                                  else ''https://'' @ typed)),
                         (''user_id'', JStr u), (''device_id'', JStr dv),
                         (''access_token'', JStr tok), (''device_name'', JStr dn)])])"
proof -
  have a: "filter is_password_login (trace_of (login env dn (d, tr))) =
           filter is_password_login tr @
           [Call_login (AsyncClient (JStr (add_scheme typed)) (JStr uid) (JStr [])) pw dn]"
    by (simp only: login_first [OF assms(1)] first_login_calls_login [OF assms(2-4)])
  have b: "client_login env (AsyncClient (JStr (add_scheme typed)) (JStr uid) (JStr [])) pw dn =
            Inr (LoginResponse u dv tok)
          \<longrightarrow> outcome (login env dn (d, tr)) =
                Inr \<lparr>homeserver = JStr (add_scheme typed),
                     user = JStr uid, handle_user_id = JStr u, handle_device_id = JStr dv,
                     access_token = JStr tok\<rparr>
              \<and> writes (trace_of (login env dn (d, tr))) = writes tr @
                [Write_config
                  (JObj [(''homeserver'', JStr (add_scheme typed)),
                         (''user_id'', JStr u), (''device_id'', JStr dv),
                         (''access_token'', JStr tok), (''device_name'', JStr dn)])]"
  proof
    assume ok: "client_login env (AsyncClient (JStr (add_scheme typed)) (JStr uid) (JStr [])) pw dn =
            Inr (LoginResponse u dv tok)"
    show "outcome (login env dn (d, tr)) =
                Inr \<lparr>homeserver = JStr (add_scheme typed),
                     user = JStr uid, handle_user_id = JStr u, handle_device_id = JStr dv,
                     access_token = JStr tok\<rparr>
              \<and> writes (trace_of (login env dn (d, tr))) = writes tr @
                [Write_config
                  (JObj [(''homeserver'', JStr (add_scheme typed)),
                         (''user_id'', JStr u), (''device_id'', JStr dv),
                         (''access_token'', JStr tok), (''device_name'', JStr dn)])]"
      by (simp add: login_first [OF assms(1)] first_login_success [OF assms(2-4) ok]
          outcome_def trace_of_def writes_def credentials_def)
  qed
  from a b show ?thesis
    unfolding add_scheme_prefix by (intro conjI)
qed

theorem homeserver_scheme_witness:
  "filter is_password_login (trace_of (login plain_env ''bot1'' (fresh_disk, []))) =
     [Call_login (AsyncClient (JStr ''https://matrix.example.org'') (JStr ''@bot:example.org'')
        (JStr [])) ''secret'' ''bot1'']
   \<and> add_scheme ''http://localhost:8008'' = ''http://localhost:8008''
   \<and> add_scheme ''https://matrix.org'' = ''https://matrix.org''"
proof -
  have none: "config_file fresh_disk = None"
    by (simp add: fresh_disk_def)
  show ?thesis
    using homeserver_scheme [OF none plain_env_facts(1-3), of "''bot1''" "[]"]
    by (simp add: add_scheme_def)
qed


end
